theory Spec2Isabelle
  imports Main "HOL-Library.Word"
begin

section \<open>JavaScript values\<close>

text \<open>
  The values the client handles: what \<open>JSON.parse\<close> produces, plus \<open>undefined\<close> (the result
  of reading an absent property, or an omitted argument) and BigInt (a value a caller can pass
  and that \<open>JSON.stringify\<close> refuses). An object is its list of own properties, looked up by
  name. Numbers are only ever tested for truthiness here, so they are kept as integers.
\<close>

datatype jsval =
    JUndefined
  | JNull
  | JBool bool
  | JNum int
  | JBigInt int
  | JStr string
  | JArr "jsval list"
  | JObj "(string \<times> jsval) list"

datatype error =
    TypeError          \<comment> \<open>property read on null/undefined, call of a non-function\<close>
  | Error string       \<comment> \<open>\<open>throw new Error(msg)\<close>\<close>
  | HelperError        \<comment> \<open>raised inside a helper of \<open>utils.js\<close>\<close>

text \<open>JavaScript truthiness, as used by \<open>if (x)\<close>, \<open>!x\<close>, \<open>x && y\<close>.\<close>

fun truthy :: "jsval \<Rightarrow> bool" where
  "truthy JUndefined = False"
| "truthy JNull = False"
| "truthy (JBool b) = b"
| "truthy (JNum n) = (n \<noteq> 0)"
| "truthy (JBigInt n) = (n \<noteq> 0)"
| "truthy (JStr s) = (s \<noteq> [])"
| "truthy (JArr xs) = True"
| "truthy (JObj kvs) = True"

text \<open>
  The property read \<open>x.k\<close>. It raises TypeError on \<open>null\<close> and \<open>undefined\<close>; on an object
  it is the property or \<open>undefined\<close>; on any other value it is \<open>undefined\<close>, for none of the
  names the client reads (\<open>toolCall\<close>, \<open>serverContent\<close>, \<open>parts\<close>, \<open>inlineData\<close>, \<open>id\<close>, ...)
  is a built-in property of strings, arrays, numbers or booleans.
\<close>

fun get :: "jsval \<Rightarrow> string \<Rightarrow> error + jsval" where
  "get JUndefined k = Inl TypeError"
| "get JNull k = Inl TypeError"
| "get (JObj kvs) k = Inr (case map_of kvs k of None \<Rightarrow> JUndefined | Some v \<Rightarrow> v)"
| "get v k = Inr JUndefined"

text \<open>\<open>m.startsWith(pre)\<close>: a method of strings only; on anything else the call raises.\<close>

fun startsWith :: "jsval \<Rightarrow> string \<Rightarrow> error + bool" where
  "startsWith (JStr s) pre = Inr (take (length pre) s = pre)"
| "startsWith v pre = Inl TypeError"

text \<open>\<open>JSON.stringify\<close> raises on a BigInt anywhere in the value; it accepts everything else.\<close>

fun stringifiable :: "jsval \<Rightarrow> bool" where
  "stringifiable (JBigInt n) = False"
| "stringifiable (JArr xs) = list_all stringifiable xs"
| "stringifiable (JObj kvs) = list_all (\<lambda>kv. stringifiable (snd kv)) kvs"
| "stringifiable v = True"

section \<open>Observable effects\<close>

type_synonym byte = "8 word"
type_synonym blob = "byte list"

text \<open>
  The events the client publishes with \<open>emit(eventName, data)\<close>, one constructor per event
  name, carrying the payload the source passes.
\<close>

datatype event =
    Connected                     \<comment> \<open>\<open>emit('connected', {})\<close>\<close>
  | ConnectionError jsval         \<comment> \<open>\<open>emit('connection_error', { error })\<close>\<close>
  | Disconnected nat string       \<comment> \<open>\<open>emit('disconnected', { code, reason })\<close>\<close>
  | ToolCall jsval                \<comment> \<open>\<open>emit('tool_call', response.toolCall)\<close>\<close>
  | ToolCallCancellation jsval    \<comment> \<open>\<open>emit('tool_call_cancellation', ...)\<close>\<close>
  | Interrupted                   \<comment> \<open>\<open>emit('interrupted')\<close>\<close>
  | TurnComplete                  \<comment> \<open>\<open>emit('turn_complete')\<close>\<close>
  | Content jsval                 \<comment> \<open>\<open>emit('content', { modelTurn: { parts } })\<close>\<close>
  | Audio "byte list"             \<comment> \<open>\<open>emit('audio', data)\<close>, an ArrayBuffer\<close>

datatype level = LDebug | LInfo | LWarn | LError

text \<open>One constructor per console call of the source (the interpolated text is not kept).\<close>

datatype msg =
    MEstablishing | MConnected | MSetupSent jsval | MCouldNotConnect jsval
  | MClosed nat string | MReconnectIn nat nat nat | MNonBlob | MDisconnected
  | MToolCall jsval | MToolCallCancellation jsval | MInterrupted | MTurnComplete
  | MSent "jsval list" | MUnmatched jsval
  | MSendFailed | MNotConnected
  | MAudioSent | MImageSent | MTextSent jsval | MToolResponseSent jsval

datatype effect =
    Emit event                    \<comment> \<open>\<open>this.emit(...)\<close>\<close>
  | Console level msg             \<comment> \<open>\<open>console.debug/info/warn/error\<close>\<close>
  | NewSocket nat string          \<comment> \<open>\<open>new WebSocket(url)\<close>, the socket's number\<close>
  | Send nat jsval                \<comment> \<open>\<open>ws.send(JSON.stringify(data))\<close> on that socket\<close>
  | CloseSocket nat nat string    \<comment> \<open>\<open>ws.close(code, reason)\<close>\<close>
  | SetTimeout nat                \<comment> \<open>\<open>setTimeout(reconnect, delay)\<close>\<close>
  | Resolve nat                   \<comment> \<open>\<open>resolve()\<close> of that promise\<close>
  | Reject nat jsval              \<comment> \<open>\<open>reject(error)\<close> of that promise\<close>

text \<open>What a call did, and the exception it ended with, if any.\<close>

type_synonym outcome = "effect list \<times> error option"

section \<open>The inbound dispatcher\<close>

text \<open>
  The callback of \<open>parts.filter\<close> in \<open>receive\<close>:
  \<open>p.inlineData && p.inlineData.mimeType.startsWith('audio/pcm')\<close>.
\<close>

definition is_audio_part :: "jsval \<Rightarrow> error + bool" where
  "is_audio_part p =
     (case get p ''inlineData'' of
        Inl e \<Rightarrow> Inl e
      | Inr d \<Rightarrow>
          if \<not> truthy d then Inr False
          else (case get d ''mimeType'' of
                  Inl e \<Rightarrow> Inl e
                | Inr m \<Rightarrow> startsWith m ''audio/pcm''))"

text \<open>\<open>parts.filter(callback)\<close> with that callback: left to right, the first exception ends it.\<close>

fun filter_audio :: "jsval list \<Rightarrow> error + jsval list" where
  "filter_audio [] = Inr []"
| "filter_audio (p # ps) =
     (case is_audio_part p of
        Inl e \<Rightarrow> Inl e
      | Inr b \<Rightarrow>
          (case filter_audio ps of
             Inl e \<Rightarrow> Inl e
           | Inr r \<Rightarrow> Inr (if b then p # r else r)))"

text \<open>The callback of \<open>audioParts.map\<close>: \<open>p.inlineData?.data\<close>.\<close>

definition inline_data :: "jsval \<Rightarrow> error + jsval" where
  "inline_data p =
     (case get p ''inlineData'' of
        Inl e \<Rightarrow> Inl e
      | Inr d \<Rightarrow> if d = JUndefined \<or> d = JNull then Inr JUndefined else get d ''data'')"

fun map_inline_data :: "jsval list \<Rightarrow> error + jsval list" where
  "map_inline_data [] = Inr []"
| "map_inline_data (p # ps) =
     (case inline_data p of
        Inl e \<Rightarrow> Inl e
      | Inr b \<Rightarrow>
          (case map_inline_data ps of
             Inl e \<Rightarrow> Inl e
           | Inr bs \<Rightarrow> Inr (b # bs)))"

text \<open>
  \<open>base64s.forEach((b64) => { if (b64) { emit('audio', base64ToArrayBuffer(b64)) } })\<close>.
  The helper \<open>base64ToArrayBuffer\<close> lives in \<open>utils.js\<close>; it is a parameter here, and it may
  raise.
\<close>

fun forEach_audio :: "(jsval \<Rightarrow> error + byte list) \<Rightarrow> jsval list \<Rightarrow> outcome" where
  "forEach_audio base64ToArrayBuffer [] = ([], None)"
| "forEach_audio base64ToArrayBuffer (b64 # rest) =
     (if truthy b64 then
        (case base64ToArrayBuffer b64 of
           Inl e \<Rightarrow> ([], Some e)
         | Inr data \<Rightarrow>
             (case forEach_audio base64ToArrayBuffer rest of
                (es, r) \<Rightarrow> (Emit (Audio data) # es, r)))
      else forEach_audio base64ToArrayBuffer rest)"

text \<open>
  The \<open>if (serverContent.modelTurn)\<close> block of \<open>receive\<close>, given \<open>serverContent.modelTurn\<close>.
  \<open>parts.filter\<close> exists only when \<open>parts\<close> is an array. \<open>audioParts.includes(p)\<close> compares
  by identity; the audio parts are objects chosen out of \<open>parts\<close> by their contents, so on
  parsed frames it agrees with membership by value.
\<close>

definition model_turn :: "(jsval \<Rightarrow> error + byte list) \<Rightarrow> jsval \<Rightarrow> outcome" where
  "model_turn base64ToArrayBuffer modelTurn =
     (case get modelTurn ''parts'' of
        Inl e \<Rightarrow> ([], Some e)
      | Inr (JArr parts) \<Rightarrow>
          (case filter_audio parts of
             Inl e \<Rightarrow> ([], Some e)
           | Inr audioParts \<Rightarrow>
               (case map_inline_data audioParts of
                  Inl e \<Rightarrow> ([], Some e)
                | Inr base64s \<Rightarrow>
                    (let otherParts = filter (\<lambda>p. p \<notin> set audioParts) parts in
                     case forEach_audio base64ToArrayBuffer base64s of
                       (es, Some e) \<Rightarrow> (es, Some e)
                     | (es, None) \<Rightarrow>
                         if otherParts \<noteq> [] then
                           (es @ [Emit (Content (JObj [(''modelTurn'',
                                     JObj [(''parts'', JArr otherParts)])])),
                                  Console LDebug (MSent otherParts)], None)
                         else (es, None))))
      | Inr v \<Rightarrow> ([], Some TypeError))"

text \<open>The \<open>if (response.serverContent)\<close> block, given \<open>response.serverContent\<close>.\<close>

definition server_content :: "(jsval \<Rightarrow> error + byte list) \<Rightarrow> jsval \<Rightarrow> outcome" where
  "server_content base64ToArrayBuffer serverContent =
     (case get serverContent ''interrupted'' of
        Inl e \<Rightarrow> ([], Some e)
      | Inr interrupted \<Rightarrow>
          if truthy interrupted then
            ([Console LDebug MInterrupted, Emit Interrupted], None)
          else
            (case get serverContent ''turnComplete'' of
               Inl e \<Rightarrow> ([], Some e)
             | Inr turnComplete \<Rightarrow>
                 (let tc = (if truthy turnComplete
                            then [Console LDebug MTurnComplete, Emit TurnComplete] else [])
                  in case get serverContent ''modelTurn'' of
                       Inl e \<Rightarrow> (tc, Some e)
                     | Inr modelTurn \<Rightarrow>
                         if truthy modelTurn then
                           (case model_turn base64ToArrayBuffer modelTurn of
                              (es, r) \<Rightarrow> (tc @ es, r))
                         else (tc, None))))"

text \<open>
  \<open>receive(blob)\<close>. The helper \<open>blobToJSON\<close> of \<open>utils.js\<close> is a parameter; it fails on a
  payload that does not parse.
\<close>

definition receive ::
  "(blob \<Rightarrow> error + jsval) \<Rightarrow> (jsval \<Rightarrow> error + byte list) \<Rightarrow> blob \<Rightarrow> outcome" where
  "receive blobToJSON base64ToArrayBuffer blob =
     (case blobToJSON blob of
        Inl e \<Rightarrow> ([], Some e)
      | Inr response \<Rightarrow>
          (case get response ''toolCall'' of
             Inl e \<Rightarrow> ([], Some e)
           | Inr toolCall \<Rightarrow>
               if truthy toolCall then
                 ([Console LDebug (MToolCall response), Emit (ToolCall toolCall)], None)
               else
                 (case get response ''toolCallCancellation'' of
                    Inl e \<Rightarrow> ([], Some e)
                  | Inr cancellation \<Rightarrow>
                      if truthy cancellation then
                        ([Console LDebug (MToolCallCancellation response),
                          Emit (ToolCallCancellation cancellation)], None)
                      else
                        (case get response ''serverContent'' of
                           Inl e \<Rightarrow> ([], Some e)
                         | Inr serverContent \<Rightarrow>
                             if truthy serverContent then
                               server_content base64ToArrayBuffer serverContent
                             else ([Console LDebug (MUnmatched response)], None)))))"

section \<open>The client and its environment\<close>

text \<open>
  \<open>WebSocket.readyState\<close>. The transport moves a socket to \<open>OPEN\<close> before it delivers the
  open event and to \<open>CLOSED\<close> before the close event; \<open>ws.close()\<close> moves a socket that is
  not yet closing or closed to \<open>CLOSING\<close>.
\<close>

datatype ready_state = CONNECTING | OPEN | CLOSING | CLOSED

datatype promise_state = Pending | Fulfilled | Rejected jsval

text \<open>
  A socket made by \<open>connect()\<close>: its handlers close over the socket itself and over the
  \<open>resolve\<close>/\<open>reject\<close> of the promise that \<open>connect()\<close> was building.
\<close>

record socket =
  sock_url :: string
  readyState :: ready_state
  sock_promise :: nat

text \<open>
  The fields of \<open>GeminiWebsocketClient\<close>, followed by the environment the class acts on: the
  sockets and promises created so far (\<open>ws\<close> and \<open>connectionPromise\<close> are references into
  them), the pending reconnect timers (their delays), and the effects so far. Listeners are
  outside the class: \<open>emit\<close> is recorded as an effect, and a listener is taken not to raise
  nor to call back into the client while it runs.

  The methods declared \<open>async\<close> run to their end within the call (none of them awaits after
  its first statement, \<open>receive\<close> apart, which awaits the parsed frame first); an exception
  raised inside one is the rejection of the promise it returns, and is the \<open>Inl\<close> result here.
  Left out: the \<open>catch\<close> of the timer callback, which only logs a later rejection, and a
  \<open>new WebSocket\<close> that refuses its url.
\<close>

record client =
  name :: string
  url :: string
  ws :: "nat option"
  config :: jsval
  isConnecting :: bool
  connectionPromise :: "nat option"
  reconnectAttempts :: nat
  maxReconnectAttempts :: nat
  reconnectDelay :: nat
  sockets :: "socket list"
  promises :: "promise_state list"
  timers :: "nat list"
  trace :: "effect list"

text \<open>
  The constructor, for a given (non-empty) url; \<open>name || 'WebSocketClient'\<close>.
\<close>

definition new_client :: "string \<Rightarrow> string \<Rightarrow> jsval \<Rightarrow> client" where
  "new_client nm u cfg =
     \<lparr> name = (if nm = [] then ''WebSocketClient'' else nm),
       url = u,
       ws = None,
       config = cfg,
       isConnecting = False,
       connectionPromise = None,
       reconnectAttempts = 0,
       maxReconnectAttempts = 3,
       reconnectDelay = 2000,
       sockets = [],
       promises = [],
       timers = [],
       trace = [] \<rparr>"

definition do :: "effect \<Rightarrow> client \<Rightarrow> client" where
  "do e s = s\<lparr>trace := trace s @ [e]\<rparr>"

definition set_ready :: "nat \<Rightarrow> ready_state \<Rightarrow> client \<Rightarrow> client" where
  "set_ready i r s = s\<lparr>sockets := (sockets s)[i := (sockets s ! i)\<lparr>readyState := r\<rparr>]\<rparr>"

text \<open>\<open>resolve()\<close> and \<open>reject(error)\<close>: a promise settles once.\<close>

definition resolve :: "nat \<Rightarrow> client \<Rightarrow> client" where
  "resolve p s =
     do (Resolve p)
       (if p < length (promises s) \<and> promises s ! p = Pending
        then s\<lparr>promises := (promises s)[p := Fulfilled]\<rparr> else s)"

definition reject :: "nat \<Rightarrow> jsval \<Rightarrow> client \<Rightarrow> client" where
  "reject p err s =
     do (Reject p err)
       (if p < length (promises s) \<and> promises s ! p = Pending
        then s\<lparr>promises := (promises s)[p := Rejected err]\<rparr> else s)"

text \<open>\<open>isConnected()\<close>: \<open>this.ws && this.ws.readyState === WebSocket.OPEN\<close>.\<close>

definition isConnected :: "client \<Rightarrow> bool" where
  "isConnected s =
     (case ws s of
        None \<Rightarrow> False
      | Some i \<Rightarrow> i < length (sockets s) \<and> readyState (sockets s ! i) = OPEN)"

subsection \<open>Sending\<close>

text \<open>
  \<open>sendJSON(json)\<close> (deprecated, used for the setup message): whatever goes wrong inside
  is rethrown as a new Error. \<open>ws.send\<close> on an open socket does not raise.
\<close>

definition sendJSON :: "jsval \<Rightarrow> client \<Rightarrow> error + client" where
  "sendJSON json s =
     (if \<not> isConnected s then Inl (Error ''Failed to send: WebSocket is not connected'')
      else if \<not> stringifiable json then Inl (Error ''Failed to send'')
      else Inr (do (Send (the (ws s)) json) s))"

text \<open>\<open>safelySendJSON(data)\<close>: the guarded send, which answers with a boolean.\<close>

definition safelySendJSON :: "jsval \<Rightarrow> client \<Rightarrow> client \<times> bool" where
  "safelySendJSON data s =
     (if isConnected s then
        (if stringifiable data then (do (Send (the (ws s)) data) s, True)
         else (do (Console LError MSendFailed) s, False))
      else (do (Console LWarn MNotConnected) s, False))"

definition media_chunk :: "string \<Rightarrow> jsval \<Rightarrow> jsval" where
  "media_chunk mime b64 =
     JObj [(''realtimeInput'',
       JObj [(''mediaChunks'',
         JArr [JObj [(''mimeType'', JStr mime), (''data'', b64)]])])]"

definition sendAudio :: "jsval \<Rightarrow> client \<Rightarrow> client" where
  "sendAudio base64audio s =
     (if \<not> truthy base64audio then s
      else (case safelySendJSON (media_chunk ''audio/pcm'' base64audio) s of
              (s', success) \<Rightarrow> if success then do (Console LDebug MAudioSent) s' else s'))"

definition sendImage :: "jsval \<Rightarrow> client \<Rightarrow> client" where
  "sendImage base64image s =
     (if \<not> truthy base64image then s
      else (case safelySendJSON (media_chunk ''image/jpeg'' base64image) s of
              (s', success) \<Rightarrow> if success then do (Console LDebug MImageSent) s' else s'))"

text \<open>\<open>sendText(text, endOfTurn = true)\<close>: an omitted flag is \<open>undefined\<close> and defaults.\<close>

definition sendText :: "jsval \<Rightarrow> jsval \<Rightarrow> client \<Rightarrow> client" where
  "sendText text endOfTurn s =
     (let formattedText =
        JObj [(''clientContent'',
          JObj [(''turns'', JArr [JObj [(''role'', JStr ''user''),
                                        (''parts'', JObj [(''text'', text)])]]),
                (''turnComplete'',
                   if endOfTurn = JUndefined then JBool True else endOfTurn)])]
      in case safelySendJSON formattedText s of
           (s', success) \<Rightarrow> if success then do (Console LDebug (MTextSent text)) s' else s')"

text \<open>
  \<open>sendToolResponse(toolResponse)\<close>. Destructuring a truthy value does not raise, so the
  reads after the first check fall back to \<open>undefined\<close>.
\<close>

definition read_prop :: "jsval \<Rightarrow> string \<Rightarrow> jsval" where
  "read_prop v k = (case get v k of Inl e \<Rightarrow> JUndefined | Inr x \<Rightarrow> x)"

definition function_response :: "string \<Rightarrow> jsval \<Rightarrow> jsval \<Rightarrow> jsval" where
  "function_response key v ident = JObj [(''response'', JObj [(key, v)]), (''id'', ident)]"

definition sendToolResponse :: "jsval \<Rightarrow> client \<Rightarrow> error + client" where
  "sendToolResponse toolResponse s =
     (if \<not> truthy toolResponse \<or> \<not> truthy (read_prop toolResponse ''id'') then
        Inl (Error ''Tool response must include an id'')
      else
        (let output = read_prop toolResponse ''output'';
             ident = read_prop toolResponse ''id'';
             err = read_prop toolResponse ''error''
         in if \<not> truthy err \<and> output = JUndefined then
              Inl (Error ''Tool response must include an output when no error is provided'')
            else
              (let result = (if truthy err then [function_response ''error'' err ident]
                             else [function_response ''output'' output ident])
               in case safelySendJSON
                         (JObj [(''toolResponse'',
                                  JObj [(''functionResponses'', JArr result)])]) s of
                    (s', success) \<Rightarrow>
                      Inr (if success then do (Console LDebug (MToolResponseSent toolResponse)) s'
                           else s'))))"

text \<open>
  How a call ends for its caller. \<open>sendToolResponse\<close> is declared \<open>async\<close>: the call itself
  never throws, it hands back a promise; an exception raised in the body rejects that promise.
\<close>

datatype 'a promise_result = Fulfils 'a | Rejects error

datatype 'a call_result = Returns 'a | Throws error

definition async :: "error + 'a \<Rightarrow> 'a promise_result call_result" where
  "async body = Returns (case body of Inl e \<Rightarrow> Rejects e | Inr v \<Rightarrow> Fulfils v)"

definition sendToolResponse_call :: "jsval \<Rightarrow> client \<Rightarrow> client promise_result call_result" where
  "sendToolResponse_call toolResponse s = async (sendToolResponse toolResponse s)"

subsection \<open>Connection lifecycle\<close>

text \<open>
  \<open>connect()\<close>: the state after the call and the promise it hands back. A new socket and a
  new promise take the next free numbers.
\<close>

definition connect :: "client \<Rightarrow> client \<times> nat option" where
  "connect s =
     (if isConnected s then (s, connectionPromise s)
      else if isConnecting s then (s, connectionPromise s)
      else
        (let p = length (promises s);
             i = length (sockets s);
             s1 = do (Console LInfo MEstablishing) s;
             s2 = s1\<lparr>isConnecting := True,
                     connectionPromise := Some p,
                     promises := promises s1 @ [Pending]\<rparr>;
             s3 = do (NewSocket i (url s2))
                    (s2\<lparr>sockets := sockets s2 @
                          [\<lparr>sock_url = url s2, readyState = CONNECTING, sock_promise = p\<rparr>]\<rparr>)
         in (s3, Some p)))"

text \<open>
  The listener for \<open>open\<close> on socket \<open>i\<close>. \<open>sendJSON\<close> is an async function called without
  \<open>await\<close>: if it raises, the handler carries on.
\<close>

definition on_open :: "nat \<Rightarrow> client \<Rightarrow> client" where
  "on_open i s =
     (let s0 = set_ready i OPEN s;
          s1 = do (Console LInfo MConnected) s0;
          s2 = s1\<lparr>ws := Some i, isConnecting := False, reconnectAttempts := 0\<rparr>;
          s3 = (case sendJSON (JObj [(''setup'', config s2)]) s2 of
                  Inl e \<Rightarrow> s2
                | Inr s' \<Rightarrow> s');
          s4 = do (Console LDebug (MSetupSent (config s3))) s3;
          s5 = do (Emit Connected) s4
      in resolve (sock_promise (sockets s ! i)) s5)"

text \<open>The listener for \<open>error\<close> on socket \<open>i\<close>; the error event is an object.\<close>

definition on_error :: "nat \<Rightarrow> (string \<times> jsval) list \<Rightarrow> client \<Rightarrow> client" where
  "on_error i err s =
     (let s1 = s\<lparr>isConnecting := False\<rparr>;
          reason = (if truthy (read_prop (JObj err) ''reason'')
                    then read_prop (JObj err) ''reason'' else JStr ''Unknown'');
          s2 = do (Console LError (MCouldNotConnect reason)) s1;
          s3 = do (Emit (ConnectionError (JObj [(''error'', JObj err)]))) s2
      in reject (sock_promise (sockets s ! i)) (JObj err) s3)"

text \<open>The listener for \<open>close\<close> on socket \<open>i\<close>, with the event's code and reason.\<close>

definition on_close :: "nat \<Rightarrow> nat \<Rightarrow> string \<Rightarrow> client \<Rightarrow> client" where
  "on_close i code reason s =
     (let s0 = set_ready i CLOSED s;
          s1 = s0\<lparr>isConnecting := False\<rparr>;
          s2 = do (Console LWarn (MClosed code reason)) s1;
          s3 = do (Emit (Disconnected code reason)) s2
      in if code \<noteq> 1000 \<and> reconnectAttempts s3 < maxReconnectAttempts s3 then
           (let s4 = s3\<lparr>reconnectAttempts := reconnectAttempts s3 + 1\<rparr>;
                delay = reconnectDelay s4 * 2 ^ (reconnectAttempts s4 - 1);
                s5 = do (Console LInfo
                           (MReconnectIn delay (reconnectAttempts s4) (maxReconnectAttempts s4))) s4
            in do (SetTimeout delay) (s5\<lparr>timers := timers s5 @ [delay]\<rparr>))
         else s3)"

text \<open>
  The callback given to \<open>setTimeout\<close>: \<open>this.connect().catch(...)\<close>, run when the \<open>k\<close>-th
  pending timer fires.
\<close>

definition timer_fire :: "nat \<Rightarrow> client \<Rightarrow> client" where
  "timer_fire k s =
     (if k < length (timers s)
      then fst (connect (s\<lparr>timers := take k (timers s) @ drop (Suc k) (timers s)\<rparr>))
      else s)"

text \<open>\<open>disconnect()\<close>.\<close>

definition disconnect :: "client \<Rightarrow> client" where
  "disconnect s =
     (case ws s of
        None \<Rightarrow> s
      | Some i \<Rightarrow>
          (let s1 = s\<lparr>reconnectAttempts := maxReconnectAttempts s\<rparr>;
               s2 = do (CloseSocket i 1000 ''User initiated disconnect'')
                      (if i < length (sockets s1) \<and>
                          readyState (sockets s1 ! i) \<in> {CONNECTING, OPEN}
                       then set_ready i CLOSING s1 else s1);
               s3 = s2\<lparr>ws := None, isConnecting := False, connectionPromise := None\<rparr>
           in do (Console LInfo MDisconnected) s3))"

text \<open>
  The listener for \<open>message\<close>: a Blob goes to \<open>receive\<close>, which is not awaited, so an
  exception inside it does not reach the handler.
\<close>

datatype message_data = BlobData blob | TextData string

definition on_message ::
  "(blob \<Rightarrow> error + jsval) \<Rightarrow> (jsval \<Rightarrow> error + byte list) \<Rightarrow> message_data \<Rightarrow> client \<Rightarrow> client"
  where
  "on_message blobToJSON base64ToArrayBuffer d s =
     (case d of
        BlobData b \<Rightarrow> s\<lparr>trace := trace s @ fst (receive blobToJSON base64ToArrayBuffer b)\<rparr>
      | TextData t \<Rightarrow> do (Console LError MNonBlob) s)"

subsection \<open>Executions\<close>

text \<open>
  What can happen to a client: a call of one of its methods, or an event the transport or
  the timer delivers. The transport delivers \<open>open\<close> and \<open>error\<close> to a connecting socket,
  \<open>message\<close> to an open one, \<open>close\<close> to one that is not closed yet.
\<close>

datatype action =
    Connect
  | Disconnect
  | SendAudio jsval
  | SendImage jsval
  | SendText jsval jsval
  | SendToolResponse jsval
  | SockOpen nat
  | SockError nat "(string \<times> jsval) list"
  | SockClose nat nat string
  | SockMessage nat message_data
  | TimerFire nat

definition sock_in :: "client \<Rightarrow> nat \<Rightarrow> ready_state set \<Rightarrow> bool" where
  "sock_in s i rs = (i < length (sockets s) \<and> readyState (sockets s ! i) \<in> rs)"

fun step ::
  "(blob \<Rightarrow> error + jsval) \<Rightarrow> (jsval \<Rightarrow> error + byte list) \<Rightarrow> action \<Rightarrow> client \<Rightarrow> client"
  where
  "step bj ba Connect s = fst (connect s)"
| "step bj ba Disconnect s = disconnect s"
| "step bj ba (SendAudio a) s = sendAudio a s"
| "step bj ba (SendImage a) s = sendImage a s"
| "step bj ba (SendText t e) s = sendText t e s"
| "step bj ba (SendToolResponse r) s =
     (case sendToolResponse r s of Inl e \<Rightarrow> s | Inr s' \<Rightarrow> s')"
| "step bj ba (SockOpen i) s = (if sock_in s i {CONNECTING} then on_open i s else s)"
| "step bj ba (SockError i e) s = (if sock_in s i {CONNECTING} then on_error i e s else s)"
| "step bj ba (SockClose i c r) s =
     (if sock_in s i {CONNECTING, OPEN, CLOSING} then on_close i c r s else s)"
| "step bj ba (SockMessage i d) s = (if sock_in s i {OPEN} then on_message bj ba d s else s)"
| "step bj ba (TimerFire k) s = timer_fire k s"

fun run ::
  "(blob \<Rightarrow> error + jsval) \<Rightarrow> (jsval \<Rightarrow> error + byte list) \<Rightarrow> action list \<Rightarrow> client \<Rightarrow> client"
  where
  "run bj ba [] s = s"
| "run bj ba (a # as) s = run bj ba as (step bj ba a s)"

section \<open>Definitions for stating the properties\<close>

text \<open>\<open>n\<close> calls of \<open>connect()\<close> in a row: the final state and the promises handed back.\<close>

fun connects :: "nat \<Rightarrow> client \<Rightarrow> client \<times> nat option list" where
  "connects 0 s = (s, [])"
| "connects (Suc n) s =
     (case connect s of (s1, p) \<Rightarrow> (case connects n s1 of (s2, ps) \<Rightarrow> (s2, p # ps)))"

fun is_NewSocket :: "effect \<Rightarrow> bool" where
  "is_NewSocket (NewSocket i u) = True"
| "is_NewSocket e = False"

text \<open>
  The specification's description of the model-turn block, to be compared with \<open>model_turn\<close>:
  an audio part is an inline-data part whose MIME type starts with \<open>audio/pcm\<close>; its payload
  is \<open>inlineData.data\<close>; one \<open>audio\<close> event per audio part with a non-empty payload, in
  order; one \<open>content\<close> event with the remaining parts, if there are any.
\<close>

definition spec_audio_part :: "jsval \<Rightarrow> bool" where
  "spec_audio_part p =
     (case read_prop (read_prop p ''inlineData'') ''mimeType'' of
        JStr m \<Rightarrow> take (length ''audio/pcm'') m = ''audio/pcm''
      | _ \<Rightarrow> False)"

definition payload :: "jsval \<Rightarrow> jsval" where
  "payload p = read_prop (read_prop p ''inlineData'') ''data''"

definition decoded :: "(jsval \<Rightarrow> error + byte list) \<Rightarrow> jsval \<Rightarrow> byte list" where
  "decoded ba p = (case ba (payload p) of Inr d \<Rightarrow> d | Inl e \<Rightarrow> [])"

definition spec_audio_events :: "(jsval \<Rightarrow> error + byte list) \<Rightarrow> jsval list \<Rightarrow> effect list" where
  "spec_audio_events ba ps =
     map (\<lambda>p. Emit (Audio (decoded ba p)))
       (filter (\<lambda>p. spec_audio_part p \<and> truthy (payload p)) ps)"

definition spec_content_events :: "jsval list \<Rightarrow> effect list" where
  "spec_content_events ps =
     (let rest = filter (\<lambda>p. \<not> spec_audio_part p) ps
      in if rest = [] then []
         else [Emit (Content (JObj [(''modelTurn'', JObj [(''parts'', JArr rest)])])),
               Console LDebug (MSent rest)])"

text \<open>
  The frames on which the dispatcher does not raise. A part is acceptable when it is not
  null and its \<open>inlineData\<close>, if truthy, carries a string \<open>mimeType\<close>; a payload is
  acceptable when the decoder takes it, or it is not decoded at all. The model-turn block is
  reached when no earlier rule stops the dispatch.
\<close>

definition part_ok :: "jsval \<Rightarrow> bool" where
  "part_ok p =
     (p \<noteq> JUndefined \<and> p \<noteq> JNull \<and>
      (case read_prop (read_prop p ''inlineData'') ''mimeType'' of
         JStr m \<Rightarrow> True
       | _ \<Rightarrow> \<not> truthy (read_prop p ''inlineData'')))"

definition payload_ok :: "(jsval \<Rightarrow> error + byte list) \<Rightarrow> jsval \<Rightarrow> bool" where
  "payload_ok ba p =
     (case ba (payload p) of
        Inr d \<Rightarrow> True
      | Inl e \<Rightarrow> \<not> (spec_audio_part p \<and> truthy (payload p)))"

definition reaches_model_turn :: "jsval \<Rightarrow> bool" where
  "reaches_model_turn r =
     (\<not> truthy (read_prop r ''toolCall'') \<and>
      \<not> truthy (read_prop r ''toolCallCancellation'') \<and>
      \<not> truthy (read_prop (read_prop r ''serverContent'') ''interrupted'') \<and>
      truthy (read_prop (read_prop r ''serverContent'') ''modelTurn''))"

definition parts_ok :: "(jsval \<Rightarrow> error + byte list) \<Rightarrow> jsval \<Rightarrow> bool" where
  "parts_ok ba mt =
     (case read_prop mt ''parts'' of
        JArr ps \<Rightarrow> list_all part_ok ps \<and> list_all (payload_ok ba) ps
      | _ \<Rightarrow> False)"

definition frame_ok :: "(jsval \<Rightarrow> error + byte list) \<Rightarrow> jsval \<Rightarrow> bool" where
  "frame_ok ba r =
     (r \<noteq> JUndefined \<and> r \<noteq> JNull \<and>
      (if reaches_model_turn r
       then parts_ok ba (read_prop (read_prop r ''serverContent'') ''modelTurn'')
       else True))"

text \<open>
  Nothing has been written on a socket that is still connecting: every socket named by a
  \<open>Send\<close> in the trace has left the \<open>CONNECTING\<close> state.
\<close>

definition no_early_send :: "client \<Rightarrow> bool" where
  "no_early_send s =
     (\<forall>i d. Send i d \<in> set (trace s) \<longrightarrow>
        i < length (sockets s) \<and> readyState (sockets s ! i) \<noteq> CONNECTING)"

text \<open>
  Stand-ins for the two helpers of \<open>utils.js\<close> in concrete executions (a payload that parses
  to a given value, a decoder that accepts strings only), and the frames of the
  specification's examples.
\<close>

definition parse_as :: "jsval \<Rightarrow> blob \<Rightarrow> error + jsval" where
  "parse_as v b = Inr v"

definition decode_chars :: "jsval \<Rightarrow> error + byte list" where
  "decode_chars v =
     (case v of JStr s \<Rightarrow> Inr (map (\<lambda>c. of_nat (of_char c)) s) | _ \<Rightarrow> Inl HelperError)"

definition example_interrupted :: jsval where
  "example_interrupted =
     JObj [(''serverContent'',
       JObj [(''interrupted'', JBool True), (''turnComplete'', JBool True),
             (''modelTurn'', JObj [(''parts'', JArr [JObj [(''text'', JStr ''hi'')]])])])]"

definition audio_example :: "string \<Rightarrow> string \<Rightarrow> jsval" where
  "audio_example mime b64 =
     JObj [(''inlineData'', JObj [(''mimeType'', JStr mime), (''data'', JStr b64)])]"

definition frame_of_parts :: "jsval list \<Rightarrow> jsval" where
  "frame_of_parts ps =
     JObj [(''serverContent'', JObj [(''modelTurn'', JObj [(''parts'', JArr ps)])])]"

section \<open>Helper facts\<close>

subsection \<open>Property reads\<close>

lemma read_prop_falsy: "\<not> truthy v \<Longrightarrow> read_prop v k = JUndefined"
  by (cases v) (simp_all add: read_prop_def)

lemma stringifiable_read_prop: "stringifiable v \<Longrightarrow> stringifiable (read_prop v k)"
proof (cases v)
  case (JObj kvs)
  assume "stringifiable v"
  with JObj have "list_all (\<lambda>kv. stringifiable (snd kv)) kvs" by simp
  then have "stringifiable (case map_of kvs k of None \<Rightarrow> JUndefined | Some x \<Rightarrow> x)"
    by (induction kvs) auto
  with JObj show ?thesis by (simp add: read_prop_def)
qed (simp_all add: read_prop_def)

lemma get_read_prop: "v \<noteq> JUndefined \<Longrightarrow> v \<noteq> JNull \<Longrightarrow> get v k = Inr (read_prop v k)"
  by (cases v) (simp_all add: read_prop_def)

lemma truthy_not_null: "truthy v \<Longrightarrow> v \<noteq> JUndefined \<and> v \<noteq> JNull"
  by (cases v) simp_all

lemma read_prop_truthy_obj: "truthy (read_prop v k) \<Longrightarrow> \<exists>kvs. v = JObj kvs"
  by (cases v) (simp_all add: read_prop_def)

lemma read_prop_not_undef_obj: "read_prop v k \<noteq> JUndefined \<Longrightarrow> \<exists>kvs. v = JObj kvs"
  by (cases v) (simp_all add: read_prop_def)

subsection \<open>The dispatcher, block by block\<close>

lemma is_audio_part_ok: "part_ok p \<Longrightarrow> is_audio_part p = Inr (spec_audio_part p)"
proof -
  assume ok: "part_ok p"
  then have g: "get p ''inlineData'' = Inr (read_prop p ''inlineData'')"
    by (simp add: part_ok_def get_read_prop)
  show ?thesis
  proof (cases "truthy (read_prop p ''inlineData'')")
    case False
    then have "read_prop (read_prop p ''inlineData'') ''mimeType'' = JUndefined"
      by (rule read_prop_falsy)
    then show ?thesis using g False by (simp add: is_audio_part_def spec_audio_part_def)
  next
    case True
    then have "get (read_prop p ''inlineData'') ''mimeType''
                 = Inr (read_prop (read_prop p ''inlineData'') ''mimeType'')"
      using truthy_not_null get_read_prop by blast
    then show ?thesis using g True ok
      by (auto simp: is_audio_part_def spec_audio_part_def part_ok_def split: jsval.splits)
  qed
qed

lemma is_audio_part_bad: "\<not> part_ok p \<Longrightarrow> is_audio_part p = Inl TypeError"
proof (cases "p = JUndefined \<or> p = JNull")
  case True
  then show ?thesis by (auto simp: is_audio_part_def)
next
  case False
  assume bad: "\<not> part_ok p"
  from False have g: "get p ''inlineData'' = Inr (read_prop p ''inlineData'')"
    by (simp add: get_read_prop)
  from bad False have t: "truthy (read_prop p ''inlineData'')"
    by (auto simp: part_ok_def split: jsval.splits)
  then have g2: "get (read_prop p ''inlineData'') ''mimeType''
                 = Inr (read_prop (read_prop p ''inlineData'') ''mimeType'')"
    using truthy_not_null get_read_prop by blast
  from bad False t have "\<forall>m. read_prop (read_prop p ''inlineData'') ''mimeType'' \<noteq> JStr m"
    by (auto simp: part_ok_def split: jsval.splits)
  then have "startsWith (read_prop (read_prop p ''inlineData'') ''mimeType'') ''audio/pcm''
               = Inl TypeError"
    by (cases "read_prop (read_prop p ''inlineData'') ''mimeType''") simp_all
  then show ?thesis using g g2 t by (simp add: is_audio_part_def)
qed

lemma filter_audio_ok: "list_all part_ok ps \<Longrightarrow> filter_audio ps = Inr (filter spec_audio_part ps)"
  by (induction ps) (simp_all add: is_audio_part_ok)

lemma filter_audio_bad: "\<not> list_all part_ok ps \<Longrightarrow> filter_audio ps = Inl TypeError"
proof (induction ps)
  case Nil
  then show ?case by simp
next
  case (Cons p ps)
  show ?case
  proof (cases "part_ok p")
    case True
    with Cons show ?thesis by (simp add: is_audio_part_ok)
  next
    case False
    then show ?thesis by (simp add: is_audio_part_bad)
  qed
qed

lemma inline_data_audio: "spec_audio_part p \<Longrightarrow> inline_data p = Inr (payload p)"
proof -
  assume a: "spec_audio_part p"
  then have m: "read_prop (read_prop p ''inlineData'') ''mimeType'' \<noteq> JUndefined"
    by (auto simp: spec_audio_part_def split: jsval.splits)
  then obtain kvs where d: "read_prop p ''inlineData'' = JObj kvs"
    using read_prop_not_undef_obj by blast
  then have "read_prop p ''inlineData'' \<noteq> JUndefined" by simp
  then obtain kvs' where p: "p = JObj kvs'"
    using read_prop_not_undef_obj by blast
  have "get p ''inlineData'' = Inr (read_prop p ''inlineData'')"
    using p by (simp add: read_prop_def)
  then have g: "get p ''inlineData'' = Inr (JObj kvs)"
    using d by simp
  have "get (JObj kvs) ''data'' = Inr (read_prop (JObj kvs) ''data'')"
    by (simp add: read_prop_def)
  then show ?thesis
    using g d by (simp add: inline_data_def payload_def)
qed

lemma map_inline_data_audio:
  "list_all spec_audio_part ps \<Longrightarrow> map_inline_data ps = Inr (map payload ps)"
  by (induction ps) (simp_all add: inline_data_audio)

lemma other_parts: "filter (\<lambda>p. p \<in> set ps \<longrightarrow> \<not> spec_audio_part p) ps
                      = filter (\<lambda>p. \<not> spec_audio_part p) ps"
  by (rule filter_cong) auto

lemma forEach_audio_ok:
  "list_all (payload_ok ba) ps \<Longrightarrow> list_all spec_audio_part ps \<Longrightarrow>
   forEach_audio ba (map payload ps) = (spec_audio_events ba ps, None)"
proof (induction ps)
  case Nil
  then show ?case by (simp add: spec_audio_events_def)
next
  case (Cons p ps)
  then have ih: "forEach_audio ba (map payload ps) = (spec_audio_events ba ps, None)" by simp
  show ?case
  proof (cases "truthy (payload p)")
    case False
    then show ?thesis using ih Cons.prems by (simp add: spec_audio_events_def)
  next
    case True
    with Cons.prems obtain d where "ba (payload p) = Inr d"
      by (auto simp: payload_ok_def split: sum.splits)
    then show ?thesis using ih True Cons.prems
      by (simp add: spec_audio_events_def decoded_def)
  qed
qed

lemma forEach_audio_bad:
  "\<not> list_all (payload_ok ba) ps \<Longrightarrow> list_all spec_audio_part ps \<Longrightarrow>
   \<exists>e. snd (forEach_audio ba (map payload ps)) = Some e"
proof (induction ps)
  case Nil
  then show ?case by simp
next
  case (Cons p ps)
  show ?case
  proof (cases "payload_ok ba p")
    case False
    then show ?thesis using Cons.prems
      by (auto simp: payload_ok_def split: sum.splits)
  next
    case True
    with Cons have "\<exists>e. snd (forEach_audio ba (map payload ps)) = Some e" by simp
    then show ?thesis
      by (auto split: sum.splits prod.splits)
  qed
qed

lemma audio_events_filter:
  "spec_audio_events ba (filter spec_audio_part ps) = spec_audio_events ba ps"
  by (simp add: spec_audio_events_def conj_commute cong: conj_cong)

lemma payload_ok_filter:
  "list_all (payload_ok ba) (filter spec_audio_part ps) = list_all (payload_ok ba) ps"
  by (induction ps) (auto simp: payload_ok_def split: sum.splits)

lemma model_turn_ok:
  assumes "read_prop mt ''parts'' = JArr ps" and "list_all part_ok ps"
    and "list_all (payload_ok ba) ps"
  shows "model_turn ba mt = (spec_audio_events ba ps @ spec_content_events ps, None)"
proof -
  have "mt \<noteq> JUndefined \<and> mt \<noteq> JNull"
    using assms(1) read_prop_not_undef_obj [of mt "''parts''"] by auto
  then have "get mt ''parts'' = Inr (read_prop mt ''parts'')"
    by (simp add: get_read_prop)
  then have g: "get mt ''parts'' = Inr (JArr ps)"
    using assms(1) by simp
  have a: "list_all spec_audio_part (filter spec_audio_part ps)"
    by (simp add: list_all_iff)
  have f: "forEach_audio ba (map payload (filter spec_audio_part ps))
             = (spec_audio_events ba ps, None)"
    using forEach_audio_ok [OF _ a, of ba] assms(3)
    by (simp add: payload_ok_filter audio_events_filter)
  show ?thesis
    using g assms(2) f a
    by (simp add: model_turn_def filter_audio_ok map_inline_data_audio other_parts
          spec_content_events_def Let_def)
qed

lemma model_turn_raises:
  assumes "truthy mt"
  shows "snd (model_turn ba mt) = None \<longleftrightarrow> parts_ok ba mt"
proof -
  have g: "get mt ''parts'' = Inr (read_prop mt ''parts'')"
    using assms truthy_not_null get_read_prop by blast
  show ?thesis
  proof (cases "\<exists>ps. read_prop mt ''parts'' = JArr ps")
    case False
    then show ?thesis using g
      by (cases "read_prop mt ''parts''") (simp_all add: model_turn_def parts_ok_def)
  next
    case True
    then obtain ps where ps: "read_prop mt ''parts'' = JArr ps" by blast
    show ?thesis
    proof (cases "list_all part_ok ps")
      case False
      then show ?thesis using g ps
        by (simp add: model_turn_def parts_ok_def filter_audio_bad)
    next
      case ok: True
      show ?thesis
      proof (cases "list_all (payload_ok ba) ps")
        case True
        then show ?thesis using model_turn_ok [OF ps ok] ps ok by (simp add: parts_ok_def)
      next
        case False
        have a: "list_all spec_audio_part (filter spec_audio_part ps)"
          by (simp add: list_all_iff)
        from False have "\<not> list_all (payload_ok ba) (filter spec_audio_part ps)"
          by (simp add: payload_ok_filter)
        from forEach_audio_bad [OF this a]
        obtain e where "snd (forEach_audio ba (map payload (filter spec_audio_part ps))) = Some e"
          by blast
        then obtain es where
          "forEach_audio ba (map payload (filter spec_audio_part ps)) = (es, Some e)"
          by (cases "forEach_audio ba (map payload (filter spec_audio_part ps))") simp
        then have "snd (model_turn ba mt) = Some e"
          using g ps ok a
          by (simp add: model_turn_def filter_audio_ok map_inline_data_audio Let_def)
        then show ?thesis using False ps by (simp add: parts_ok_def)
      qed
    qed
  qed
qed

lemma server_content_cases:
  assumes "truthy sc"
  shows "server_content ba sc =
     (if truthy (read_prop sc ''interrupted'') then
        ([Console LDebug MInterrupted, Emit Interrupted], None)
      else if truthy (read_prop sc ''modelTurn'') then
        ((if truthy (read_prop sc ''turnComplete'')
          then [Console LDebug MTurnComplete, Emit TurnComplete] else [])
           @ fst (model_turn ba (read_prop sc ''modelTurn'')),
         snd (model_turn ba (read_prop sc ''modelTurn'')))
      else
        ((if truthy (read_prop sc ''turnComplete'')
          then [Console LDebug MTurnComplete, Emit TurnComplete] else []), None))"
proof -
  have g: "get sc k = Inr (read_prop sc k)" for k
    using assms truthy_not_null get_read_prop by blast
  show ?thesis
    by (simp add: server_content_def g Let_def split_beta)
qed

lemma receive_cases:
  assumes "bj blob = Inr r"
  shows "receive bj ba blob =
     (if r = JUndefined \<or> r = JNull then ([], Some TypeError)
      else if truthy (read_prop r ''toolCall'') then
        ([Console LDebug (MToolCall r), Emit (ToolCall (read_prop r ''toolCall''))], None)
      else if truthy (read_prop r ''toolCallCancellation'') then
        ([Console LDebug (MToolCallCancellation r),
          Emit (ToolCallCancellation (read_prop r ''toolCallCancellation''))], None)
      else if truthy (read_prop r ''serverContent'') then
        server_content ba (read_prop r ''serverContent'')
      else ([Console LDebug (MUnmatched r)], None))"
proof (cases "r = JUndefined \<or> r = JNull")
  case True
  then show ?thesis using assms by (auto simp: receive_def)
next
  case False
  then have g: "get r k = Inr (read_prop r k)" for k
    by (simp add: get_read_prop)
  show ?thesis using False assms by (simp add: receive_def g)
qed

subsection \<open>No write reaches a connecting socket\<close>

lemma forEach_audio_no_send: "Send i d \<notin> set (fst (forEach_audio ba bs))"
  by (induction bs) (auto split: sum.splits prod.splits)

lemma model_turn_no_send: "Send i d \<notin> set (fst (model_turn ba mt))"
proof -
  have "Send i d \<notin> set (fst (forEach_audio ba bs))" for bs
    by (rule forEach_audio_no_send)
  then have f: "forEach_audio ba bs = (es, r) \<Longrightarrow> Send i d \<notin> set es" for bs es r
    by (metis fst_conv)
  show ?thesis
    by (auto simp: model_turn_def Let_def split: sum.splits jsval.splits prod.splits option.splits
          dest: f)
qed

lemma server_content_no_send: "Send i d \<notin> set (fst (server_content ba sc))"
  using model_turn_no_send [of i d ba]
  by (auto simp: server_content_def Let_def split: sum.splits prod.splits)
     (metis fst_conv)+

lemma receive_no_send: "Send i d \<notin> set (fst (receive bj ba b))"
  using server_content_no_send [of i d ba]
  by (auto simp: receive_def split: sum.splits)

lemma sound_connect: "no_early_send s \<Longrightarrow> no_early_send (fst (connect s))"
  by (auto simp: no_early_send_def connect_def Let_def do_def nth_append less_Suc_eq)

lemma sound_disconnect: "no_early_send s \<Longrightarrow> no_early_send (disconnect s)"
  by (auto simp: no_early_send_def disconnect_def Let_def do_def set_ready_def nth_list_update
           split: option.splits)

lemma sound_safelySend: "no_early_send s \<Longrightarrow> no_early_send (fst (safelySendJSON d s))"
  by (auto simp: no_early_send_def safelySendJSON_def do_def isConnected_def split: option.splits)

lemma sound_do_console: "no_early_send s \<Longrightarrow> no_early_send (do (Console l m) s)"
  by (auto simp: no_early_send_def do_def)

lemma sound_sendAudio: "no_early_send s \<Longrightarrow> no_early_send (sendAudio a s)"
  using sound_safelySend [of s] sound_do_console
  by (auto simp: sendAudio_def split: prod.splits) (metis fst_conv)+

lemma sound_sendImage: "no_early_send s \<Longrightarrow> no_early_send (sendImage a s)"
  using sound_safelySend [of s] sound_do_console
  by (auto simp: sendImage_def split: prod.splits) (metis fst_conv)+

lemma sound_sendText: "no_early_send s \<Longrightarrow> no_early_send (sendText t e s)"
  using sound_safelySend [of s] sound_do_console
  by (auto simp: sendText_def Let_def split: prod.splits) (metis fst_conv)+

lemma sound_sendToolResponse:
  "no_early_send s \<Longrightarrow> sendToolResponse r s = Inr s' \<Longrightarrow> no_early_send s'"
  using sound_safelySend [of s] sound_do_console
  by (auto simp: sendToolResponse_def Let_def split: prod.splits if_splits) (metis fst_conv)+

lemma sound_on_open: "no_early_send s \<Longrightarrow> i < length (sockets s) \<Longrightarrow> no_early_send (on_open i s)"
  by (auto simp: no_early_send_def on_open_def Let_def do_def set_ready_def sendJSON_def
        resolve_def isConnected_def nth_list_update split: sum.splits if_splits)

lemma sound_on_error: "no_early_send s \<Longrightarrow> no_early_send (on_error i e s)"
  by (auto simp: no_early_send_def on_error_def Let_def do_def reject_def)

lemma sound_set_ready:
  "no_early_send s \<Longrightarrow> r \<noteq> CONNECTING \<Longrightarrow> no_early_send (set_ready i r s)"
proof (cases "i < length (sockets s)")
  case True
  assume "no_early_send s" "r \<noteq> CONNECTING"
  then show ?thesis using True
    by (auto simp: no_early_send_def set_ready_def nth_list_update)
next
  case False
  assume "no_early_send s"
  moreover have "(sockets s)[i := (sockets s ! i)\<lparr>readyState := r\<rparr>] = sockets s"
    using False by (simp add: list_update_beyond)
  ultimately show ?thesis
    by (simp add: no_early_send_def set_ready_def)
qed

lemma sound_on_close: "no_early_send s \<Longrightarrow> no_early_send (on_close i c r s)"
proof -
  assume "no_early_send s"
  then have "no_early_send (set_ready i CLOSED s)"
    by (simp add: sound_set_ready)
  then show ?thesis
    by (auto simp: no_early_send_def on_close_def Let_def do_def)
qed

lemma sound_on_message: "no_early_send s \<Longrightarrow> no_early_send (on_message bj ba d s)"
  using receive_no_send [of _ _ bj ba]
  by (auto simp: no_early_send_def on_message_def do_def split: message_data.splits)

lemma sound_timer_fire: "no_early_send s \<Longrightarrow> no_early_send (timer_fire k s)"
proof -
  assume a: "no_early_send s"
  then have "no_early_send (s\<lparr>timers := take k (timers s) @ drop (Suc k) (timers s)\<rparr>)"
    by (simp add: no_early_send_def)
  then show ?thesis using a by (simp add: timer_fire_def sound_connect)
qed

lemma sound_step: "no_early_send s \<Longrightarrow> no_early_send (step bj ba a s)"
proof (cases a)
  case (SendToolResponse r)
  assume "no_early_send s"
  then show ?thesis using SendToolResponse sound_sendToolResponse [of s r]
    by (auto split: sum.splits)
qed (simp_all add: sound_connect sound_disconnect sound_sendAudio sound_sendImage sound_sendText
       sound_on_open sound_on_error sound_on_close sound_on_message sound_timer_fire sock_in_def)

lemma sound_run: "no_early_send s \<Longrightarrow> no_early_send (run bj ba as s)"
  by (induction as arbitrary: s) (simp_all add: sound_step)

lemma sound_new: "no_early_send (new_client nm u cfg)"
  by (simp add: no_early_send_def new_client_def)

lemma config_step: "config (step bj ba a s) = config s"
proof (cases a)
  case (SendToolResponse r)
  then show ?thesis
    by (auto simp: sendToolResponse_def safelySendJSON_def do_def Let_def split: sum.splits if_splits)
qed (simp_all add: connect_def disconnect_def sendAudio_def sendImage_def sendText_def
       safelySendJSON_def on_open_def on_error_def on_close_def on_message_def timer_fire_def
       sendJSON_def resolve_def reject_def set_ready_def do_def Let_def
       split: option.splits message_data.splits)

lemma config_run: "config (run bj ba as s) = config s"
  by (induction as arbitrary: s) (simp_all add: config_step)

subsection \<open>Concrete states\<close>

lemma connect_again: "connect (fst (connect s)) = connect s"
proof (cases "isConnected s \<or> isConnecting s")
  case True
  then show ?thesis by (auto simp: connect_def)
next
  case False
  then have "isConnecting (fst (connect s))"
    by (simp add: connect_def Let_def do_def)
  moreover have "connectionPromise (fst (connect s)) = snd (connect s)"
    using False by (simp add: connect_def Let_def do_def)
  ultimately show ?thesis
    by (simp add: connect_def [of "fst (connect s)"])
qed

lemma open_client:
  "isConnected (on_open 0 (fst (connect (new_client ''c'' ''wss://x'' JNull)))) \<and>
   ws (on_open 0 (fst (connect (new_client ''c'' ''wss://x'' JNull)))) = Some 0 \<and>
   trace (on_open 0 (fst (connect (new_client ''c'' ''wss://x'' JNull))))
     = [Console LInfo MEstablishing, NewSocket 0 ''wss://x'', Console LInfo MConnected,
        Send 0 (JObj [(''setup'', JNull)]), Console LDebug (MSetupSent JNull),
        Emit Connected, Resolve 0]"
  by (simp add: on_open_def connect_def new_client_def Let_def do_def isConnected_def
        set_ready_def sendJSON_def resolve_def)

section \<open>Connection lifecycle\<close>

text \<open>
  C1. With the constructor's settings (at most 3 attempts, base delay 2000 ms), the close
  handler, on a close code other than 1000 while the attempt counter is below 3, raises the
  counter by one, publishes \<open>disconnected\<close> with the code and reason first, and then sets
  one timer with delay \<open>2000 * 2 ^ (newCounter - 1)\<close>: 2000, 4000, 8000 ms for counters 0, 1, 2.
  It opens no socket itself. The timer it has set, when it fires, runs \<open>connect()\<close>: if the
  client is not connected then, a new socket to the same url is opened and the client is
  connecting. With the counter at 3 the handler publishes \<open>disconnected\<close> and sets no timer.
\<close>

theorem close_handler_backoff:
  assumes "maxReconnectAttempts s = 3" and "reconnectDelay s = 2000"
  shows "(code \<noteq> 1000 \<and> reconnectAttempts s < 3 \<longrightarrow>
            reconnectAttempts (on_close i code reason s) = reconnectAttempts s + 1 \<and>
            timers (on_close i code reason s)
              = timers s @ [2000 * 2 ^ (reconnectAttempts s + 1 - 1)] \<and>
            trace (on_close i code reason s)
              = trace s @ [Console LWarn (MClosed code reason),
                           Emit (Disconnected code reason),
                           Console LInfo (MReconnectIn (2000 * 2 ^ (reconnectAttempts s + 1 - 1))
                                            (reconnectAttempts s + 1) 3),
                           SetTimeout (2000 * 2 ^ (reconnectAttempts s + 1 - 1))] \<and>
            length (sockets (on_close i code reason s)) = length (sockets s) \<and>
            (reconnectAttempts s = 0 \<longrightarrow> timers (on_close i code reason s) = timers s @ [2000]) \<and>
            (reconnectAttempts s = 1 \<longrightarrow> timers (on_close i code reason s) = timers s @ [4000]) \<and>
            (reconnectAttempts s = 2 \<longrightarrow> timers (on_close i code reason s) = timers s @ [8000]) \<and>
            timer_fire (length (timers s)) (on_close i code reason s)
              = fst (connect ((on_close i code reason s)\<lparr>timers := timers s\<rparr>)) \<and>
            (\<not> isConnected (on_close i code reason s) \<longrightarrow>
               timers (timer_fire (length (timers s)) (on_close i code reason s)) = timers s \<and>
               isConnecting (timer_fire (length (timers s)) (on_close i code reason s)) \<and>
               sockets (timer_fire (length (timers s)) (on_close i code reason s))
                 = sockets (on_close i code reason s) @
                     [\<lparr>sock_url = url s, readyState = CONNECTING,
                       sock_promise = length (promises s)\<rparr>] \<and>
               trace (timer_fire (length (timers s)) (on_close i code reason s))
                 = trace (on_close i code reason s) @
                     [Console LInfo MEstablishing, NewSocket (length (sockets s)) (url s)]))
       \<and> (reconnectAttempts s = 3 \<longrightarrow>
            timers (on_close i code reason s) = timers s \<and>
            reconnectAttempts (on_close i code reason s) = 3 \<and>
            trace (on_close i code reason s)
              = trace s @ [Console LWarn (MClosed code reason),
                           Emit (Disconnected code reason)])"
proof -
  let ?s' = "on_close i code reason s"
  have base: "isConnecting ?s' = False" "url ?s' = url s" "promises ?s' = promises s"
             "length (sockets ?s') = length (sockets s)"
    by (simp_all add: on_close_def do_def set_ready_def Let_def)
  have a: "code \<noteq> 1000 \<and> reconnectAttempts s < 3 \<longrightarrow>
            reconnectAttempts ?s' = reconnectAttempts s + 1 \<and>
            timers ?s' = timers s @ [2000 * 2 ^ (reconnectAttempts s + 1 - 1)] \<and>
            trace ?s'
              = trace s @ [Console LWarn (MClosed code reason),
                           Emit (Disconnected code reason),
                           Console LInfo (MReconnectIn (2000 * 2 ^ (reconnectAttempts s + 1 - 1))
                                            (reconnectAttempts s + 1) 3),
                           SetTimeout (2000 * 2 ^ (reconnectAttempts s + 1 - 1))] \<and>
            (reconnectAttempts s = 0 \<longrightarrow> timers ?s' = timers s @ [2000]) \<and>
            (reconnectAttempts s = 1 \<longrightarrow> timers ?s' = timers s @ [4000]) \<and>
            (reconnectAttempts s = 2 \<longrightarrow> timers ?s' = timers s @ [8000])"
    using assms by (simp add: on_close_def do_def set_ready_def Let_def)
  have fire: "code \<noteq> 1000 \<and> reconnectAttempts s < 3 \<longrightarrow>
            timer_fire (length (timers s)) ?s' = fst (connect (?s'\<lparr>timers := timers s\<rparr>))"
    using a by (simp add: timer_fire_def)
  have conn: "\<not> isConnected ?s' \<Longrightarrow>
      timers (fst (connect (?s'\<lparr>timers := timers s\<rparr>))) = timers s \<and>
      isConnecting (fst (connect (?s'\<lparr>timers := timers s\<rparr>))) \<and>
      sockets (fst (connect (?s'\<lparr>timers := timers s\<rparr>)))
        = sockets ?s' @ [\<lparr>sock_url = url s, readyState = CONNECTING,
                          sock_promise = length (promises s)\<rparr>] \<and>
      trace (fst (connect (?s'\<lparr>timers := timers s\<rparr>)))
        = trace ?s' @ [Console LInfo MEstablishing, NewSocket (length (sockets s)) (url s)]"
  proof -
    assume n: "\<not> isConnected ?s'"
    have "isConnected (?s'\<lparr>timers := timers s\<rparr>) = isConnected ?s'"
      by (simp add: isConnected_def split: option.splits)
    then have "\<not> isConnected (?s'\<lparr>timers := timers s\<rparr>)" using n by simp
    then show ?thesis using base
      by (simp add: connect_def Let_def do_def)
  qed
  have c: "reconnectAttempts s = 3 \<longrightarrow>
            timers ?s' = timers s \<and> reconnectAttempts ?s' = 3 \<and>
            trace ?s' = trace s @ [Console LWarn (MClosed code reason),
                                   Emit (Disconnected code reason)]"
    using assms by (simp add: on_close_def do_def set_ready_def Let_def)
  show ?thesis using a fire conn c base(4) by simp
qed

theorem close_handler_backoff_witness:
  "sock_in (on_open 0 (fst (connect (new_client ''c'' ''wss://x'' JNull)))) 0 {OPEN} \<and>
   maxReconnectAttempts (on_open 0 (fst (connect (new_client ''c'' ''wss://x'' JNull)))) = 3 \<and>
   reconnectDelay (on_open 0 (fst (connect (new_client ''c'' ''wss://x'' JNull)))) = 2000 \<and>
   (1006::nat) \<noteq> 1000 \<and>
   reconnectAttempts (on_open 0 (fst (connect (new_client ''c'' ''wss://x'' JNull)))) < 3 \<and>
   \<not> isConnected
       (on_close 0 1006 [] (on_open 0 (fst (connect (new_client ''c'' ''wss://x'' JNull))))) \<and>
   timers (on_close 0 1006 [] (on_open 0 (fst (connect (new_client ''c'' ''wss://x'' JNull)))))
     = [2000] \<and>
   reconnectAttempts
     (on_close 0 1006 [] (on_open 0 (fst (connect (new_client ''c'' ''wss://x'' JNull))))) = 1 \<and>
   trace (timer_fire 0
            (on_close 0 1006 [] (on_open 0 (fst (connect (new_client ''c'' ''wss://x'' JNull))))))
     = [Console LInfo MEstablishing, NewSocket 0 ''wss://x'', Console LInfo MConnected,
        Send 0 (JObj [(''setup'', JNull)]), Console LDebug (MSetupSent JNull),
        Emit Connected, Resolve 0,
        Console LWarn (MClosed 1006 []), Emit (Disconnected 1006 []),
        Console LInfo (MReconnectIn 2000 1 3), SetTimeout 2000,
        Console LInfo MEstablishing, NewSocket 1 ''wss://x''] \<and>
   reconnectAttempts
     (disconnect (on_open 0 (fst (connect (new_client ''c'' ''wss://x'' JNull))))) = 3 \<and>
   timers (on_close 0 1006 []
             (disconnect (on_open 0 (fst (connect (new_client ''c'' ''wss://x'' JNull)))))) = []"
proof -
  let ?s = "on_open 0 (fst (connect (new_client ''c'' ''wss://x'' JNull)))"
  have f: "sock_in ?s 0 {OPEN}" "maxReconnectAttempts ?s = 3" "reconnectDelay ?s = 2000"
          "reconnectAttempts ?s = 0" "timers ?s = []" "url ?s = ''wss://x''"
          "length (sockets ?s) = 1"
    by (simp_all add: sock_in_def on_open_def connect_def new_client_def Let_def do_def
          isConnected_def set_ready_def sendJSON_def resolve_def)
  have t: "trace ?s = [Console LInfo MEstablishing, NewSocket 0 ''wss://x'',
        Console LInfo MConnected, Send 0 (JObj [(''setup'', JNull)]),
        Console LDebug (MSetupSent JNull), Emit Connected, Resolve 0]"
    using open_client by simp
  have n: "\<not> isConnected (on_close 0 1006 [] ?s)"
    by (simp add: on_close_def on_open_def connect_def new_client_def Let_def do_def
          isConnected_def set_ready_def sendJSON_def resolve_def)
  have d: "maxReconnectAttempts (disconnect ?s) = 3" "reconnectDelay (disconnect ?s) = 2000"
          "reconnectAttempts (disconnect ?s) = 3" "timers (disconnect ?s) = []"
    by (simp_all add: disconnect_def on_open_def connect_def new_client_def Let_def do_def
          isConnected_def set_ready_def sendJSON_def resolve_def)
  show ?thesis
    using f t n d
      close_handler_backoff [of ?s 1006 0 "[]"]
      close_handler_backoff [of "disconnect ?s" 1006 0 "[]"]
    by clarsimp
qed

text \<open>
  C2. The execution that contradicts the statement: the connection opens, closes abnormally
  (a timer is set), \<open>disconnect()\<close> is called, and the timer fires. Its callback calls
  \<open>connect()\<close>, which finds the client neither connected nor connecting and opens a second
  socket; once that socket opens, the client is connected again.
\<close>

theorem stale_timer_reconnects:
  "trace (run (parse_as JNull) decode_chars
            [Connect, SockOpen 0, SockClose 0 1006 [], Disconnect, TimerFire 0]
            (new_client ''c'' ''wss://x'' JNull))
     = [Console LInfo MEstablishing, NewSocket 0 ''wss://x'', Console LInfo MConnected,
        Send 0 (JObj [(''setup'', JNull)]), Console LDebug (MSetupSent JNull),
        Emit Connected, Resolve 0,
        Console LWarn (MClosed 1006 []), Emit (Disconnected 1006 []),
        Console LInfo (MReconnectIn 2000 1 3), SetTimeout 2000,
        CloseSocket 0 1000 ''User initiated disconnect'', Console LInfo MDisconnected,
        Console LInfo MEstablishing, NewSocket 1 ''wss://x''] \<and>
   isConnected (run (parse_as JNull) decode_chars
            [Connect, SockOpen 0, SockClose 0 1006 [], Disconnect, TimerFire 0, SockOpen 1]
            (new_client ''c'' ''wss://x'' JNull))"
  by (simp add: new_client_def connect_def on_open_def on_close_def disconnect_def
        timer_fire_def sock_in_def isConnected_def sendJSON_def resolve_def do_def
        set_ready_def Let_def)

text \<open>
  C4, as stated, fails: after a failed open the transport also delivers an abnormal close
  event, and the close handler then sets a reconnect timer whose callback opens a second
  socket.
\<close>

theorem failed_open_retried_counterexample:
  "trace (run (parse_as JNull) decode_chars
            [Connect, SockError 0 [], SockClose 0 1006 [], TimerFire 0]
            (new_client ''c'' ''wss://x'' JNull))
     = [Console LInfo MEstablishing, NewSocket 0 ''wss://x'',
        Console LError (MCouldNotConnect (JStr ''Unknown'')),
        Emit (ConnectionError (JObj [(''error'', JObj [])])), Reject 0 (JObj []),
        Console LWarn (MClosed 1006 []), Emit (Disconnected 1006 []),
        Console LInfo (MReconnectIn 2000 1 3), SetTimeout 2000,
        Console LInfo MEstablishing, NewSocket 1 ''wss://x'']"
  by (simp add: new_client_def connect_def on_error_def on_close_def
        timer_fire_def sock_in_def isConnected_def reject_def do_def read_prop_def
        set_ready_def Let_def)

text \<open>
  C4, amended. In any state reached from a new client whose configuration can be serialised,
  when a connecting socket opens, the client is connected, the attempt counter is zero, nothing
  had been written on that socket before, and the handler writes the setup message, then
  publishes \<open>connected\<close>, then resolves the promise of that attempt. When the socket fails
  instead, the error handler publishes \<open>connection_error\<close> with the error and rejects the
  promise; it sets no timer and opens no socket itself. The abnormal close event that follows
  goes through the close handler, which sets a reconnect timer while the counter is below the
  maximum.
\<close>

theorem open_and_error_handlers:
  assumes "s = run bj ba acts (new_client nm u cfg)"
    and "stringifiable cfg"
    and "sock_in s i {CONNECTING}"
  shows "isConnected (on_open i s) \<and>
         ws (on_open i s) = Some i \<and>
         \<not> isConnecting (on_open i s) \<and>
         reconnectAttempts (on_open i s) = 0 \<and>
         (\<forall>d. Send i d \<notin> set (trace s)) \<and>
         trace (on_open i s) = trace s @
           [Console LInfo MConnected, Send i (JObj [(''setup'', cfg)]),
            Console LDebug (MSetupSent cfg), Emit Connected,
            Resolve (sock_promise (sockets s ! i))] \<and>
         trace (on_error i err s) = trace s @
           [Console LError (MCouldNotConnect
              (if truthy (read_prop (JObj err) ''reason'')
               then read_prop (JObj err) ''reason'' else JStr ''Unknown'')),
            Emit (ConnectionError (JObj [(''error'', JObj err)])),
            Reject (sock_promise (sockets s ! i)) (JObj err)] \<and>
         \<not> isConnecting (on_error i err s) \<and>
         timers (on_error i err s) = timers s \<and>
         sockets (on_error i err s) = sockets s \<and>
         (code \<noteq> 1000 \<and> reconnectAttempts s < maxReconnectAttempts s \<longrightarrow>
            timers (on_close i code reason (on_error i err s))
              = timers s @ [reconnectDelay s * 2 ^ reconnectAttempts s])"
proof -
  have cfg: "config s = cfg"
    using assms(1) by (simp add: config_run new_client_def)
  have inv: "no_early_send s"
    using assms(1) by (simp add: sound_run sound_new)
  have i: "i < length (sockets s)" "readyState (sockets s ! i) = CONNECTING"
    using assms(3) by (simp_all add: sock_in_def)
  have fresh: "\<forall>d. Send i d \<notin> set (trace s)"
    using inv i by (auto simp: no_early_send_def)
  have op: "isConnected (on_open i s) \<and> ws (on_open i s) = Some i \<and>
         \<not> isConnecting (on_open i s) \<and> reconnectAttempts (on_open i s) = 0 \<and>
         trace (on_open i s) = trace s @
           [Console LInfo MConnected, Send i (JObj [(''setup'', cfg)]),
            Console LDebug (MSetupSent cfg), Emit Connected,
            Resolve (sock_promise (sockets s ! i))]"
    using cfg i assms(2)
    by (simp add: on_open_def Let_def do_def set_ready_def sendJSON_def isConnected_def
          resolve_def)
  have er: "trace (on_error i err s) = trace s @
           [Console LError (MCouldNotConnect
              (if truthy (read_prop (JObj err) ''reason'')
               then read_prop (JObj err) ''reason'' else JStr ''Unknown'')),
            Emit (ConnectionError (JObj [(''error'', JObj err)])),
            Reject (sock_promise (sockets s ! i)) (JObj err)] \<and>
         \<not> isConnecting (on_error i err s) \<and>
         timers (on_error i err s) = timers s \<and>
         sockets (on_error i err s) = sockets s"
    by (simp add: on_error_def Let_def do_def reject_def)
  have cl: "code \<noteq> 1000 \<and> reconnectAttempts s < maxReconnectAttempts s \<longrightarrow>
            timers (on_close i code reason (on_error i err s))
              = timers s @ [reconnectDelay s * 2 ^ reconnectAttempts s]"
    by (simp add: on_close_def on_error_def Let_def do_def reject_def set_ready_def)
  show ?thesis using fresh op er cl by simp
qed

theorem open_and_error_handlers_witness:
  "stringifiable JNull \<and>
   sock_in (run (parse_as JNull) decode_chars [Connect] (new_client ''c'' ''wss://x'' JNull)) 0
     {CONNECTING} \<and>
   trace (on_open 0 (run (parse_as JNull) decode_chars [Connect]
                       (new_client ''c'' ''wss://x'' JNull)))
     = [Console LInfo MEstablishing, NewSocket 0 ''wss://x'', Console LInfo MConnected,
        Send 0 (JObj [(''setup'', JNull)]), Console LDebug (MSetupSent JNull),
        Emit Connected, Resolve 0] \<and>
   (1006::nat) \<noteq> 1000 \<and>
   timers (on_close 0 1006 []
             (on_error 0 [] (run (parse_as JNull) decode_chars [Connect]
                               (new_client ''c'' ''wss://x'' JNull)))) = [2000]"
proof -
  let ?c = "new_client ''c'' ''wss://x'' JNull"
  let ?s = "run (parse_as JNull) decode_chars [Connect] ?c"
  have s: "?s = fst (connect ?c)" by simp
  have f: "sock_in ?s 0 {CONNECTING}" "sock_promise (sockets ?s ! 0) = 0"
          "trace ?s = [Console LInfo MEstablishing, NewSocket 0 ''wss://x'']"
          "reconnectAttempts ?s = 0" "maxReconnectAttempts ?s = 3" "reconnectDelay ?s = 2000"
          "timers ?s = []"
    by (simp_all add: sock_in_def connect_def new_client_def Let_def do_def isConnected_def)
  have g: "stringifiable JNull" by simp
  show ?thesis
    using f g
      open_and_error_handlers [where s="?s" and bj="parse_as JNull" and ba=decode_chars
        and acts="[Connect]" and nm="''c''" and u="''wss://x''" and cfg=JNull and i=0
        and err="[]" and code=1006 and reason="[]", OF refl g f(1)]
    by simp
qed

text \<open>
  Calls of \<open>connect()\<close> in a row, from any state, all hand back the promise of the first call
  and leave the state the first call produced; a call made while the client is connected or
  its \<open>isConnecting\<close> flag is set changes nothing and hands back the stored promise; the whole
  run of calls opens one socket if the client was neither, none otherwise.
\<close>

lemma connect_back_to_back:
  "connects (Suc n) s = (fst (connect s), replicate (Suc n) (snd (connect s))) \<and>
   (isConnected s \<or> isConnecting s \<longrightarrow> connect s = (s, connectionPromise s)) \<and>
   length (filter is_NewSocket (trace (fst (connects (Suc n) s))))
     = length (filter is_NewSocket (trace s))
       + (if isConnected s \<or> isConnecting s then 0 else 1)"
proof -
  have rep: "connects k (fst (connect s)) = (fst (connect s), replicate k (snd (connect s)))" for k
  proof (induction k)
    case 0
    show ?case by simp
  next
    case (Suc k)
    have "connect (fst (connect s)) = connect s" by (rule connect_again)
    then show ?case using Suc by (simp add: split_beta)
  qed
  have first: "connects (Suc n) s = (fst (connect s), replicate (Suc n) (snd (connect s)))"
    using rep [of n] by (simp add: split_beta)
  have guard: "isConnected s \<or> isConnecting s \<longrightarrow> connect s = (s, connectionPromise s)"
    by (simp add: connect_def)
  have count: "length (filter is_NewSocket (trace (fst (connect s))))
     = length (filter is_NewSocket (trace s))
       + (if isConnected s \<or> isConnecting s then 0 else 1)"
    by (simp add: connect_def Let_def do_def)
  show ?thesis using first guard count by simp
qed

text \<open>
  C8. The execution that contradicts the statement: the connection opens, \<open>disconnect()\<close>
  is called, \<open>connect()\<close> starts a second attempt (socket 1, promise 1), and then the close
  event of the first socket arrives. Its handler clears \<open>isConnecting\<close> although socket 1 is
  still connecting, so the next \<open>connect()\<close> opens a third socket and hands back a new promise.
\<close>

theorem stale_close_breaks_guard:
  "sock_in (run (parse_as JNull) decode_chars
              [Connect, SockOpen 0, Disconnect, Connect, SockClose 0 1000 []]
              (new_client ''c'' ''wss://x'' JNull)) 1 {CONNECTING} \<and>
   connectionPromise (run (parse_as JNull) decode_chars
              [Connect, SockOpen 0, Disconnect, Connect]
              (new_client ''c'' ''wss://x'' JNull)) = Some 1 \<and>
   snd (connect (run (parse_as JNull) decode_chars
              [Connect, SockOpen 0, Disconnect, Connect, SockClose 0 1000 []]
              (new_client ''c'' ''wss://x'' JNull))) = Some 2 \<and>
   filter is_NewSocket (trace (run (parse_as JNull) decode_chars
              [Connect, SockOpen 0, Disconnect, Connect, SockClose 0 1000 [], Connect]
              (new_client ''c'' ''wss://x'' JNull)))
     = [NewSocket 0 ''wss://x'', NewSocket 1 ''wss://x'', NewSocket 2 ''wss://x''] \<and>
   map readyState (sockets (run (parse_as JNull) decode_chars
              [Connect, SockOpen 0, Disconnect, Connect, SockClose 0 1000 [], Connect]
              (new_client ''c'' ''wss://x'' JNull)))
     = [CLOSED, CONNECTING, CONNECTING]"
  by (simp add: new_client_def connect_def on_open_def on_close_def disconnect_def
        sock_in_def isConnected_def sendJSON_def resolve_def do_def
        set_ready_def Let_def)

text \<open>
  C10. While \<open>ws\<close> is null, \<open>disconnect()\<close> returns the state unchanged, every field of it;
  \<open>ws\<close> is still null after \<open>connect()\<close> has started an attempt, so the same holds then. The
  attempt counter is therefore not raised, and a later open or close event of the pending
  socket is handled exactly as if \<open>disconnect()\<close> had not been called.
\<close>

theorem disconnect_without_channel:
  assumes "ws s = None"
  shows "disconnect s = s \<and>
         ws (fst (connect s)) = None \<and>
         disconnect (fst (connect s)) = fst (connect s) \<and>
         reconnectAttempts (disconnect s) = reconnectAttempts s \<and>
         on_open i (disconnect (fst (connect s))) = on_open i (fst (connect s)) \<and>
         on_close i code reason (disconnect (fst (connect s)))
           = on_close i code reason (fst (connect s))"
  using assms by (simp add: disconnect_def connect_def Let_def do_def isConnected_def)

theorem disconnect_without_channel_witness:
  "ws (new_client ''c'' ''wss://x'' JNull) = None \<and>
   disconnect (fst (connect (new_client ''c'' ''wss://x'' JNull)))
     = fst (connect (new_client ''c'' ''wss://x'' JNull)) \<and>
   isConnected (run (parse_as JNull) decode_chars [Connect, Disconnect, SockOpen 0]
                  (new_client ''c'' ''wss://x'' JNull)) \<and>
   timers (run (parse_as JNull) decode_chars [Connect, Disconnect, SockClose 0 1006 []]
             (new_client ''c'' ''wss://x'' JNull)) = [2000]"
proof -
  have w: "ws (new_client ''c'' ''wss://x'' JNull) = None"
    by (simp add: new_client_def)
  have d: "disconnect (fst (connect (new_client ''c'' ''wss://x'' JNull)))
             = fst (connect (new_client ''c'' ''wss://x'' JNull))"
    using disconnect_without_channel [OF w] by simp
  have o: "isConnected (on_open 0 (fst (connect (new_client ''c'' ''wss://x'' JNull))))"
    by (simp add: on_open_def connect_def new_client_def Let_def do_def isConnected_def
          set_ready_def sendJSON_def resolve_def)
  have c: "timers (on_close 0 1006 [] (fst (connect (new_client ''c'' ''wss://x'' JNull))))
             = [2000]"
    by (simp add: on_close_def connect_def new_client_def Let_def do_def isConnected_def
          set_ready_def)
  have k: "sock_in (fst (connect (new_client ''c'' ''wss://x'' JNull))) 0 {CONNECTING}"
          "sock_in (fst (connect (new_client ''c'' ''wss://x'' JNull))) 0 {CONNECTING, OPEN, CLOSING}"
    by (simp_all add: sock_in_def connect_def new_client_def Let_def do_def isConnected_def)
  show ?thesis using w d o c k by simp
qed

section \<open>Inbound dispatch\<close>

text \<open>
  C3, as stated, fails: a frame whose \<open>modelTurn\<close> has no \<open>parts\<close>, a part whose
  \<open>inlineData\<close> has no \<open>mimeType\<close>, and the frame \<open>null\<close> all parse, and \<open>receive\<close> ends
  with a TypeError on each.
\<close>

theorem receive_raises_counterexample:
  "receive (parse_as (JObj [(''serverContent'', JObj [(''modelTurn'', JObj [])])]))
     decode_chars [] = ([], Some TypeError) \<and>
   receive (parse_as (frame_of_parts [JObj [(''inlineData'', JObj [(''data'', JStr ''AA'')])]]))
     decode_chars [] = ([], Some TypeError) \<and>
   receive (parse_as JNull) decode_chars [] = ([], Some TypeError)"
  by (simp add: receive_def parse_as_def server_content_def model_turn_def frame_of_parts_def
        is_audio_part_def)

text \<open>
  C3, amended. On a frame that parses, \<open>receive\<close> ends without an exception exactly when the
  frame is not null and, if the model-turn block is reached, \<open>modelTurn.parts\<close> is an array of
  acceptable parts with acceptable payloads. A frame that is not null and matches none of the
  three variants is logged as unmatched, and nothing is published.
\<close>

theorem receive_raises_iff:
  assumes "bj blob = Inr r"
  shows "(snd (receive bj ba blob) = None \<longleftrightarrow> frame_ok ba r) \<and>
         (r \<noteq> JUndefined \<and> r \<noteq> JNull \<and>
          \<not> truthy (read_prop r ''toolCall'') \<and>
          \<not> truthy (read_prop r ''toolCallCancellation'') \<and>
          \<not> truthy (read_prop r ''serverContent'') \<longrightarrow>
            receive bj ba blob = ([Console LDebug (MUnmatched r)], None))"
proof -
  have unmatched: "r \<noteq> JUndefined \<and> r \<noteq> JNull \<and>
          \<not> truthy (read_prop r ''toolCall'') \<and>
          \<not> truthy (read_prop r ''toolCallCancellation'') \<and>
          \<not> truthy (read_prop r ''serverContent'') \<longrightarrow>
            receive bj ba blob = ([Console LDebug (MUnmatched r)], None)"
    by (simp add: receive_cases [where bj=bj and blob=blob and r=r and ba=ba, OF assms])
  have iff: "snd (receive bj ba blob) = None \<longleftrightarrow> frame_ok ba r"
  proof (cases "truthy (read_prop r ''serverContent'')")
    case False
    then have "read_prop (read_prop r ''serverContent'') ''modelTurn'' = JUndefined"
      by (rule read_prop_falsy)
    then show ?thesis using False
      by (simp add: receive_cases [where bj=bj and blob=blob and r=r and ba=ba, OF assms] frame_ok_def reaches_model_turn_def)
  next
    case True
    then obtain k where "r = JObj k" using read_prop_truthy_obj by blast
    then have nn: "r \<noteq> JUndefined \<and> r \<noteq> JNull" by simp
    show ?thesis
      using nn True
        server_content_cases [OF True, of ba]
        model_turn_raises [of "read_prop (read_prop r ''serverContent'') ''modelTurn''" ba]
      by (simp add: receive_cases [where bj=bj and blob=blob and r=r and ba=ba, OF assms] frame_ok_def reaches_model_turn_def)
  qed
  show ?thesis using iff unmatched by blast
qed

theorem receive_raises_iff_witness:
  "parse_as (JObj [(''hello'', JNum 1)]) [] = Inr (JObj [(''hello'', JNum 1)]) \<and>
   frame_ok decode_chars (JObj [(''hello'', JNum 1)]) \<and>
   receive (parse_as (JObj [(''hello'', JNum 1)])) decode_chars []
     = ([Console LDebug (MUnmatched (JObj [(''hello'', JNum 1)]))], None)"
proof -
  have h: "parse_as (JObj [(''hello'', JNum 1)]) [] = Inr (JObj [(''hello'', JNum 1)])"
    by (simp add: parse_as_def)
  have p: "read_prop (JObj [(''hello'', JNum 1)]) ''toolCall'' = JUndefined"
          "read_prop (JObj [(''hello'', JNum 1)]) ''toolCallCancellation'' = JUndefined"
          "read_prop (JObj [(''hello'', JNum 1)]) ''serverContent'' = JUndefined"
    by (simp_all add: read_prop_def)
  have f: "frame_ok decode_chars (JObj [(''hello'', JNum 1)])"
    by (simp add: frame_ok_def reaches_model_turn_def read_prop_def)
  show ?thesis
    using h p f receive_raises_iff [where bj="parse_as (JObj [(''hello'', JNum 1)])" and blob="[]"
                 and r="JObj [(''hello'', JNum 1)]" and ba=decode_chars, OF h]
    by simp
qed

text \<open>
  C5. When a frame has no tool call and no tool-call cancellation and its
  \<open>serverContent.interrupted\<close> is truthy, \<open>receive\<close> logs, publishes \<open>interrupted\<close> and
  nothing else, and ends: no \<open>turn_complete\<close>, \<open>content\<close> or \<open>audio\<close>, whatever else the
  frame holds.
\<close>

theorem interrupted_short_circuits:
  assumes "bj blob = Inr r"
    and "\<not> truthy (read_prop r ''toolCall'')"
    and "\<not> truthy (read_prop r ''toolCallCancellation'')"
    and "truthy (read_prop (read_prop r ''serverContent'') ''interrupted'')"
  shows "receive bj ba blob = ([Console LDebug MInterrupted, Emit Interrupted], None)"
proof -
  obtain kvs where sc: "read_prop r ''serverContent'' = JObj kvs"
    using assms(4) read_prop_truthy_obj by blast
  then have "truthy (read_prop r ''serverContent'')" by simp
  then obtain kvs' where "r = JObj kvs'"
    using read_prop_truthy_obj by blast
  then have "r \<noteq> JUndefined \<and> r \<noteq> JNull" by simp
  then show ?thesis
    using assms sc server_content_cases [of "JObj kvs" ba]
    by (simp add: receive_cases [where bj=bj and blob=blob and r=r and ba=ba, OF assms(1)])
qed

theorem interrupted_short_circuits_witness:
  "parse_as example_interrupted [] = Inr example_interrupted \<and>
   \<not> truthy (read_prop example_interrupted ''toolCall'') \<and>
   \<not> truthy (read_prop example_interrupted ''toolCallCancellation'') \<and>
   truthy (read_prop (read_prop example_interrupted ''serverContent'') ''interrupted'') \<and>
   receive (parse_as example_interrupted) decode_chars []
     = ([Console LDebug MInterrupted, Emit Interrupted], None)"
proof -
  have h: "parse_as example_interrupted [] = Inr example_interrupted"
          "\<not> truthy (read_prop example_interrupted ''toolCall'')"
          "\<not> truthy (read_prop example_interrupted ''toolCallCancellation'')"
          "truthy (read_prop (read_prop example_interrupted ''serverContent'') ''interrupted'')"
    by (simp_all add: parse_as_def example_interrupted_def read_prop_def)
  show ?thesis
    using h interrupted_short_circuits [where bj="parse_as example_interrupted" and blob="[]"
               and r=example_interrupted and ba=decode_chars, OF h]
    by simp
qed

text \<open>
  C6, as stated, fails: an audio part whose payload is the empty string gets no \<open>audio\<close>
  event (and is not part of a \<open>content\<close> event either).
\<close>

theorem empty_audio_payload_counterexample:
  "spec_audio_part (audio_example ''audio/pcm'' '''') \<and>
   receive (parse_as (frame_of_parts [audio_example ''audio/pcm'' ''''])) decode_chars []
     = ([], None)"
  by (simp add: receive_def parse_as_def server_content_def model_turn_def frame_of_parts_def
        is_audio_part_def audio_example_def spec_audio_part_def read_prop_def inline_data_def)

text \<open>
  C6, amended. For a frame with no tool call, no cancellation and no interruption whose
  \<open>modelTurn.parts\<close> is an array of acceptable parts with acceptable payloads, \<open>receive\<close>
  publishes \<open>turn_complete\<close> first if \<open>turnComplete\<close> is truthy, then one \<open>audio\<close> event
  for each audio part with a non-empty payload, in the order of the parts, carrying the decoded
  payload, then, if some part is not an audio part, one \<open>content\<close> event with exactly those
  parts in their order.
\<close>

theorem model_turn_dispatch:
  assumes "bj blob = Inr r"
    and "\<not> truthy (read_prop r ''toolCall'')"
    and "\<not> truthy (read_prop r ''toolCallCancellation'')"
    and "\<not> truthy (read_prop (read_prop r ''serverContent'') ''interrupted'')"
    and "read_prop (read_prop (read_prop r ''serverContent'') ''modelTurn'') ''parts'' = JArr ps"
    and "list_all part_ok ps"
    and "list_all (payload_ok ba) ps"
  shows "receive bj ba blob =
           ((if truthy (read_prop (read_prop r ''serverContent'') ''turnComplete'')
             then [Console LDebug MTurnComplete, Emit TurnComplete] else [])
            @ spec_audio_events ba ps @ spec_content_events ps, None)"
proof -
  have "read_prop (read_prop (read_prop r ''serverContent'') ''modelTurn'') ''parts'' \<noteq> JUndefined"
    using assms(5) by simp
  then obtain k1 where mt: "read_prop (read_prop r ''serverContent'') ''modelTurn'' = JObj k1"
    using read_prop_not_undef_obj by blast
  then have "truthy (read_prop (read_prop r ''serverContent'') ''modelTurn'')" by simp
  then obtain k2 where sc: "read_prop r ''serverContent'' = JObj k2"
    using read_prop_truthy_obj by blast
  then have "truthy (read_prop r ''serverContent'')" by simp
  then obtain k3 where "r = JObj k3"
    using read_prop_truthy_obj by blast
  then have nn: "r \<noteq> JUndefined \<and> r \<noteq> JNull" by simp
  have m: "model_turn ba (JObj k1) = (spec_audio_events ba ps @ spec_content_events ps, None)"
    using model_turn_ok [of "JObj k1" ps ba] assms(5,6,7) mt sc by simp
  show ?thesis
    using assms(2,3,4) nn sc mt m server_content_cases [of "JObj k2" ba]
    by (simp add: receive_cases [where bj=bj and blob=blob and r=r and ba=ba, OF assms(1)])
qed

theorem model_turn_dispatch_witness:
  "parse_as (frame_of_parts [audio_example ''audio/pcm'' ''AA'', JObj [(''text'', JStr ''hi'')],
                             audio_example ''audio/pcm;rate=24000'' ''BB'']) []
     = Inr (frame_of_parts [audio_example ''audio/pcm'' ''AA'', JObj [(''text'', JStr ''hi'')],
                            audio_example ''audio/pcm;rate=24000'' ''BB'']) \<and>
   list_all part_ok [audio_example ''audio/pcm'' ''AA'', JObj [(''text'', JStr ''hi'')],
                     audio_example ''audio/pcm;rate=24000'' ''BB''] \<and>
   list_all (payload_ok decode_chars)
     [audio_example ''audio/pcm'' ''AA'', JObj [(''text'', JStr ''hi'')],
      audio_example ''audio/pcm;rate=24000'' ''BB''] \<and>
   receive (parse_as (frame_of_parts [audio_example ''audio/pcm'' ''AA'',
                                      JObj [(''text'', JStr ''hi'')],
                                      audio_example ''audio/pcm;rate=24000'' ''BB''])) decode_chars []
     = ([Emit (Audio [65, 65]), Emit (Audio [66, 66]),
         Emit (Content (JObj [(''modelTurn'',
                 JObj [(''parts'', JArr [JObj [(''text'', JStr ''hi'')]])])])),
         Console LDebug (MSent [JObj [(''text'', JStr ''hi'')]])], None)"
proof -
  let ?ps = "[audio_example ''audio/pcm'' ''AA'', JObj [(''text'', JStr ''hi'')],
              audio_example ''audio/pcm;rate=24000'' ''BB'']"
  have h1: "parse_as (frame_of_parts ?ps) [] = Inr (frame_of_parts ?ps)"
    by (simp add: parse_as_def)
  have h2: "\<not> truthy (read_prop (frame_of_parts ?ps) ''toolCall'')"
           "\<not> truthy (read_prop (frame_of_parts ?ps) ''toolCallCancellation'')"
           "\<not> truthy (read_prop (read_prop (frame_of_parts ?ps) ''serverContent'') ''interrupted'')"
           "read_prop (read_prop (read_prop (frame_of_parts ?ps) ''serverContent'') ''modelTurn'')
              ''parts'' = JArr ?ps"
    by (simp_all add: frame_of_parts_def read_prop_def)
  have h3: "list_all part_ok ?ps"
    by (simp add: part_ok_def audio_example_def read_prop_def)
  have h4: "list_all (payload_ok decode_chars) ?ps"
    by (simp add: payload_ok_def payload_def audio_example_def read_prop_def decode_chars_def
          spec_audio_part_def)
  have tc: "\<not> truthy (read_prop (read_prop (frame_of_parts ?ps) ''serverContent'') ''turnComplete'')"
    by (simp add: frame_of_parts_def read_prop_def)
  have ev: "spec_audio_events decode_chars ?ps = [Emit (Audio [65, 65]), Emit (Audio [66, 66])]"
    by (simp add: spec_audio_events_def spec_audio_part_def payload_def audio_example_def
          read_prop_def decoded_def decode_chars_def)
  have ct: "spec_content_events ?ps
              = [Emit (Content (JObj [(''modelTurn'',
                    JObj [(''parts'', JArr [JObj [(''text'', JStr ''hi'')]])])])),
                 Console LDebug (MSent [JObj [(''text'', JStr ''hi'')]])]"
    by (simp add: spec_content_events_def spec_audio_part_def audio_example_def read_prop_def
          Let_def)
  show ?thesis
    using model_turn_dispatch [where bj="parse_as (frame_of_parts ?ps)" and blob="[]"
             and r="frame_of_parts ?ps" and ba=decode_chars and ps="?ps", OF h1 h2 h3 h4]
          h1 h3 h4 tc ev ct
    by simp
qed

section \<open>Outbound sends\<close>

text \<open>
  The body of \<open>sendToolResponse\<close>: when it raises, and what it writes on an open connection.
\<close>

lemma sendToolResponse_cases:
  "((\<exists>e. sendToolResponse r s = Inl e) \<longleftrightarrow>
      (\<not> truthy r \<or> \<not> truthy (read_prop r ''id'')) \<or>
      (\<not> truthy (read_prop r ''error'') \<and> read_prop r ''output'' = JUndefined))
   \<and> (truthy (read_prop r ''id'') \<and> truthy (read_prop r ''error'') \<and>
        isConnected s \<and> stringifiable r \<longrightarrow>
        (\<exists>s'. sendToolResponse r s = Inr s' \<and>
          trace s' = trace s @
            [Send (the (ws s))
               (JObj [(''toolResponse'', JObj [(''functionResponses'',
                  JArr [JObj [(''response'', JObj [(''error'', read_prop r ''error'')]),
                              (''id'', read_prop r ''id'')]])])]),
             Console LDebug (MToolResponseSent r)]))
   \<and> (truthy (read_prop r ''id'') \<and> \<not> truthy (read_prop r ''error'') \<and>
        read_prop r ''output'' \<noteq> JUndefined \<and> isConnected s \<and> stringifiable r \<longrightarrow>
        (\<exists>s'. sendToolResponse r s = Inr s' \<and>
          trace s' = trace s @
            [Send (the (ws s))
               (JObj [(''toolResponse'', JObj [(''functionResponses'',
                  JArr [JObj [(''response'', JObj [(''output'', read_prop r ''output'')]),
                              (''id'', read_prop r ''id'')]])])]),
             Console LDebug (MToolResponseSent r)]))"
proof -
  have truthy_r: "truthy (read_prop r ''id'') \<Longrightarrow> truthy r"
    by (cases "truthy r") (simp_all add: read_prop_falsy)
  have a: "(\<exists>e. sendToolResponse r s = Inl e) \<longleftrightarrow>
      (\<not> truthy r \<or> \<not> truthy (read_prop r ''id'')) \<or>
      (\<not> truthy (read_prop r ''error'') \<and> read_prop r ''output'' = JUndefined)"
    by (auto simp: sendToolResponse_def Let_def split: prod.splits)
  have b: "truthy (read_prop r ''id'') \<and> truthy (read_prop r ''error'') \<and>
        isConnected s \<and> stringifiable r \<longrightarrow>
        (\<exists>s'. sendToolResponse r s = Inr s' \<and>
          trace s' = trace s @
            [Send (the (ws s))
               (JObj [(''toolResponse'', JObj [(''functionResponses'',
                  JArr [JObj [(''response'', JObj [(''error'', read_prop r ''error'')]),
                              (''id'', read_prop r ''id'')]])])]),
             Console LDebug (MToolResponseSent r)])"
    using truthy_r stringifiable_read_prop [of r]
    by (simp add: sendToolResponse_def Let_def safelySendJSON_def function_response_def do_def)
  have c: "truthy (read_prop r ''id'') \<and> \<not> truthy (read_prop r ''error'') \<and>
        read_prop r ''output'' \<noteq> JUndefined \<and> isConnected s \<and> stringifiable r \<longrightarrow>
        (\<exists>s'. sendToolResponse r s = Inr s' \<and>
          trace s' = trace s @
            [Send (the (ws s))
               (JObj [(''toolResponse'', JObj [(''functionResponses'',
                  JArr [JObj [(''response'', JObj [(''output'', read_prop r ''output'')]),
                              (''id'', read_prop r ''id'')]])])]),
             Console LDebug (MToolResponseSent r)])"
    using truthy_r stringifiable_read_prop [of r]
    by (simp add: sendToolResponse_def Let_def safelySendJSON_def function_response_def do_def)
  show ?thesis using a b c by blast
qed

text \<open>
  C7, as stated, fails: a call with an id but neither output nor error, and a call without
  an id, both return normally; what they return is a rejected promise. Nothing is thrown
  synchronously.
\<close>

theorem async_rejects_counterexample:
  "sendToolResponse_call (JObj [(''id'', JStr ''x'')]) (new_client ''c'' ''wss://x'' JNull)
     = Returns (Rejects
         (Error ''Tool response must include an output when no error is provided'')) \<and>
   sendToolResponse_call (JObj []) (new_client ''c'' ''wss://x'' JNull)
     = Returns (Rejects (Error ''Tool response must include an id''))"
  by (simp add: sendToolResponse_call_def async_def sendToolResponse_def read_prop_def)

text \<open>
  C7, amended. A call of \<open>sendToolResponse\<close> never throws. The promise it hands back is
  rejected, with an Error, exactly when the id is missing (the argument or its \<open>id\<close> is
  falsy) or when neither an error (truthy) nor an output (not \<open>undefined\<close>) is supplied. With
  an id and an error, on an open connection, it writes one envelope whose single function
  response is \<open>{ response: { error }, id }\<close>, with no \<open>output\<close> key; with an id, no error and an
  output, the single function response is \<open>{ response: { output }, id }\<close>.
\<close>

theorem tool_response_rejects:
  "(\<forall>e. sendToolResponse_call r s \<noteq> Throws e)
   \<and> ((\<exists>e. sendToolResponse_call r s = Returns (Rejects e)) \<longleftrightarrow>
        (\<not> truthy r \<or> \<not> truthy (read_prop r ''id'')) \<or>
        (\<not> truthy (read_prop r ''error'') \<and> read_prop r ''output'' = JUndefined))
   \<and> (\<not> truthy r \<or> \<not> truthy (read_prop r ''id'') \<longrightarrow>
        sendToolResponse_call r s
          = Returns (Rejects (Error ''Tool response must include an id'')))
   \<and> (truthy r \<and> truthy (read_prop r ''id'') \<and>
        \<not> truthy (read_prop r ''error'') \<and> read_prop r ''output'' = JUndefined \<longrightarrow>
        sendToolResponse_call r s
          = Returns (Rejects
              (Error ''Tool response must include an output when no error is provided'')))
   \<and> (truthy (read_prop r ''id'') \<and> truthy (read_prop r ''error'') \<and>
        isConnected s \<and> stringifiable r \<longrightarrow>
        (\<exists>s'. sendToolResponse_call r s = Returns (Fulfils s') \<and>
          trace s' = trace s @
            [Send (the (ws s))
               (JObj [(''toolResponse'', JObj [(''functionResponses'',
                  JArr [JObj [(''response'', JObj [(''error'', read_prop r ''error'')]),
                              (''id'', read_prop r ''id'')]])])]),
             Console LDebug (MToolResponseSent r)]))
   \<and> (truthy (read_prop r ''id'') \<and> \<not> truthy (read_prop r ''error'') \<and>
        read_prop r ''output'' \<noteq> JUndefined \<and> isConnected s \<and> stringifiable r \<longrightarrow>
        (\<exists>s'. sendToolResponse_call r s = Returns (Fulfils s') \<and>
          trace s' = trace s @
            [Send (the (ws s))
               (JObj [(''toolResponse'', JObj [(''functionResponses'',
                  JArr [JObj [(''response'', JObj [(''output'', read_prop r ''output'')]),
                              (''id'', read_prop r ''id'')]])])]),
             Console LDebug (MToolResponseSent r)]))"
proof -
  have never: "\<forall>e. sendToolResponse_call r s \<noteq> Throws e"
    by (simp add: sendToolResponse_call_def async_def)
  have rej: "(\<exists>e. sendToolResponse_call r s = Returns (Rejects e))
               \<longleftrightarrow> (\<exists>e. sendToolResponse r s = Inl e)"
    by (cases "sendToolResponse r s") (simp_all add: sendToolResponse_call_def async_def)
  have ful: "sendToolResponse r s = Inr s' \<Longrightarrow> sendToolResponse_call r s = Returns (Fulfils s')"
    for s'
    by (simp add: sendToolResponse_call_def async_def)
  have e1: "\<not> truthy r \<or> \<not> truthy (read_prop r ''id'') \<longrightarrow>
        sendToolResponse_call r s
          = Returns (Rejects (Error ''Tool response must include an id''))"
    by (simp add: sendToolResponse_call_def async_def sendToolResponse_def)
  have e2: "truthy r \<and> truthy (read_prop r ''id'') \<and>
        \<not> truthy (read_prop r ''error'') \<and> read_prop r ''output'' = JUndefined \<longrightarrow>
        sendToolResponse_call r s
          = Returns (Rejects
              (Error ''Tool response must include an output when no error is provided''))"
    by (simp add: sendToolResponse_call_def async_def sendToolResponse_def Let_def)
  show ?thesis
    using never rej ful e1 e2 sendToolResponse_cases [of r s]
    by (intro conjI) (simp, simp, simp, simp, blast, blast)
qed

theorem tool_response_rejects_witness:
  "truthy (read_prop (JObj [(''id'', JStr ''x''), (''error'', JStr ''e'')]) ''id'') \<and>
   truthy (read_prop (JObj [(''id'', JStr ''x''), (''error'', JStr ''e'')]) ''error'') \<and>
   isConnected (on_open 0 (fst (connect (new_client ''c'' ''wss://x'' JNull)))) \<and>
   stringifiable (JObj [(''id'', JStr ''x''), (''error'', JStr ''e'')]) \<and>
   (\<exists>s'. sendToolResponse_call (JObj [(''id'', JStr ''x''), (''error'', JStr ''e'')])
            (on_open 0 (fst (connect (new_client ''c'' ''wss://x'' JNull))))
           = Returns (Fulfils s') \<and>
         trace s' = trace (on_open 0 (fst (connect (new_client ''c'' ''wss://x'' JNull)))) @
            [Send 0
               (JObj [(''toolResponse'', JObj [(''functionResponses'',
                  JArr [JObj [(''response'', JObj [(''error'', JStr ''e'')]),
                              (''id'', JStr ''x'')]])])]),
             Console LDebug (MToolResponseSent (JObj [(''id'', JStr ''x''), (''error'', JStr ''e'')]))]) \<and>
   truthy (JObj [(''id'', JStr ''x'')]) \<and>
   truthy (read_prop (JObj [(''id'', JStr ''x'')]) ''id'') \<and>
   \<not> truthy (read_prop (JObj [(''id'', JStr ''x'')]) ''error'') \<and>
   read_prop (JObj [(''id'', JStr ''x'')]) ''output'' = JUndefined \<and>
   sendToolResponse_call (JObj [(''id'', JStr ''x'')])
       (on_open 0 (fst (connect (new_client ''c'' ''wss://x'' JNull))))
     = Returns (Rejects
         (Error ''Tool response must include an output when no error is provided'')) \<and>
   \<not> truthy (read_prop (JObj []) ''id'') \<and>
   sendToolResponse_call (JObj [])
       (on_open 0 (fst (connect (new_client ''c'' ''wss://x'' JNull))))
     = Returns (Rejects (Error ''Tool response must include an id''))"
proof -
  let ?s = "on_open 0 (fst (connect (new_client ''c'' ''wss://x'' JNull)))"
  let ?r = "JObj [(''id'', JStr ''x''), (''error'', JStr ''e'')]"
  have p: "read_prop ?r ''id'' = JStr ''x''" "read_prop ?r ''error'' = JStr ''e''"
          "read_prop (JObj [(''id'', JStr ''x'')]) ''id'' = JStr ''x''"
          "read_prop (JObj [(''id'', JStr ''x'')]) ''error'' = JUndefined"
          "read_prop (JObj [(''id'', JStr ''x'')]) ''output'' = JUndefined"
          "read_prop (JObj []) ''id'' = JUndefined"
    by (simp_all add: read_prop_def)
  have c: "isConnected ?s" "ws ?s = Some 0" using open_client by simp_all
  have st: "stringifiable ?r" by simp
  show ?thesis
    using tool_response_rejects [of ?r ?s]
          tool_response_rejects [of "JObj [(''id'', JStr ''x'')]" ?s]
          tool_response_rejects [of "JObj []" ?s]
          p c st
    by simp
qed

text \<open>
  C9. For a non-empty string, \<open>sendAudio\<close> on an open connection writes exactly one
  realtime-input envelope with MIME type \<open>audio/pcm\<close> and that payload; on a closed one it
  writes nothing, and the guarded send answers \<open>false\<close> after a warning. Empty, null and
  absent input change nothing. While not connected, image, text and tool-response sends only
  log the warning (a tool response can still end with one of its two argument errors, which
  do not depend on the connection). A write that raises is logged and answered with \<open>false\<close>.
\<close>

theorem guarded_send:
  "(b \<noteq> [] \<and> isConnected s \<longrightarrow>
      trace (sendAudio (JStr b) s) = trace s @
        [Send (the (ws s))
           (JObj [(''realtimeInput'', JObj [(''mediaChunks'',
              JArr [JObj [(''mimeType'', JStr ''audio/pcm''), (''data'', JStr b)]])])]),
         Console LDebug MAudioSent])
   \<and> (b \<noteq> [] \<and> \<not> isConnected s \<longrightarrow>
        sendAudio (JStr b) s = s\<lparr>trace := trace s @ [Console LWarn MNotConnected]\<rparr> \<and>
        safelySendJSON (media_chunk ''audio/pcm'' (JStr b)) s
          = (s\<lparr>trace := trace s @ [Console LWarn MNotConnected]\<rparr>, False))
   \<and> sendAudio (JStr []) s = s \<and> sendAudio JUndefined s = s \<and> sendAudio JNull s = s
   \<and> (\<not> isConnected s \<longrightarrow>
        safelySendJSON d s = (s\<lparr>trace := trace s @ [Console LWarn MNotConnected]\<rparr>, False) \<and>
        sendImage (JStr b) s
          = (if b = [] then s else s\<lparr>trace := trace s @ [Console LWarn MNotConnected]\<rparr>) \<and>
        sendText t e s = s\<lparr>trace := trace s @ [Console LWarn MNotConnected]\<rparr> \<and>
        (sendToolResponse r s = Inr (s\<lparr>trace := trace s @ [Console LWarn MNotConnected]\<rparr>) \<or>
         sendToolResponse r s = Inl (Error ''Tool response must include an id'') \<or>
         sendToolResponse r s
           = Inl (Error ''Tool response must include an output when no error is provided'')))
   \<and> (isConnected s \<and> \<not> stringifiable d \<longrightarrow>
        safelySendJSON d s = (s\<lparr>trace := trace s @ [Console LError MSendFailed]\<rparr>, False))
   \<and> (isConnected s \<and> stringifiable d \<longrightarrow>
        safelySendJSON d s = (s\<lparr>trace := trace s @ [Send (the (ws s)) d]\<rparr>, True))
   \<and> ((\<exists>x. sendToolResponse r s = Inl x) \<longleftrightarrow> (\<exists>x. sendToolResponse r s' = Inl x))"
proof -
  have a: "b \<noteq> [] \<and> isConnected s \<longrightarrow>
      trace (sendAudio (JStr b) s) = trace s @
        [Send (the (ws s))
           (JObj [(''realtimeInput'', JObj [(''mediaChunks'',
              JArr [JObj [(''mimeType'', JStr ''audio/pcm''), (''data'', JStr b)]])])]),
         Console LDebug MAudioSent]"
    by (simp add: sendAudio_def safelySendJSON_def media_chunk_def do_def)
  have b: "b \<noteq> [] \<and> \<not> isConnected s \<longrightarrow>
        sendAudio (JStr b) s = s\<lparr>trace := trace s @ [Console LWarn MNotConnected]\<rparr> \<and>
        safelySendJSON (media_chunk ''audio/pcm'' (JStr b)) s
          = (s\<lparr>trace := trace s @ [Console LWarn MNotConnected]\<rparr>, False)"
    by (simp add: sendAudio_def safelySendJSON_def do_def)
  have c: "sendAudio (JStr []) s = s \<and> sendAudio JUndefined s = s \<and> sendAudio JNull s = s"
    by (simp add: sendAudio_def)
  have d: "\<not> isConnected s \<longrightarrow>
        safelySendJSON d s = (s\<lparr>trace := trace s @ [Console LWarn MNotConnected]\<rparr>, False) \<and>
        sendImage (JStr b) s
          = (if b = [] then s else s\<lparr>trace := trace s @ [Console LWarn MNotConnected]\<rparr>) \<and>
        sendText t e s = s\<lparr>trace := trace s @ [Console LWarn MNotConnected]\<rparr> \<and>
        (sendToolResponse r s = Inr (s\<lparr>trace := trace s @ [Console LWarn MNotConnected]\<rparr>) \<or>
         sendToolResponse r s = Inl (Error ''Tool response must include an id'') \<or>
         sendToolResponse r s
           = Inl (Error ''Tool response must include an output when no error is provided''))"
    by (simp add: sendImage_def sendText_def sendToolResponse_def safelySendJSON_def do_def Let_def)
  have e: "isConnected s \<and> \<not> stringifiable d \<longrightarrow>
        safelySendJSON d s = (s\<lparr>trace := trace s @ [Console LError MSendFailed]\<rparr>, False)"
    by (simp add: safelySendJSON_def do_def)
  have f: "isConnected s \<and> stringifiable d \<longrightarrow>
        safelySendJSON d s = (s\<lparr>trace := trace s @ [Send (the (ws s)) d]\<rparr>, True)"
    by (simp add: safelySendJSON_def do_def)
  have g: "(\<exists>x. sendToolResponse r s = Inl x) \<longleftrightarrow> (\<exists>x. sendToolResponse r s' = Inl x)"
    by (auto simp: sendToolResponse_def Let_def split: prod.splits)
  show ?thesis using a b c d e f g by blast
qed

theorem guarded_send_witness:
  "''AAAA'' \<noteq> [] \<and>
   isConnected (on_open 0 (fst (connect (new_client ''c'' ''wss://x'' JNull)))) \<and>
   trace (sendAudio (JStr ''AAAA'') (on_open 0 (fst (connect (new_client ''c'' ''wss://x'' JNull)))))
     = trace (on_open 0 (fst (connect (new_client ''c'' ''wss://x'' JNull)))) @
        [Send 0
           (JObj [(''realtimeInput'', JObj [(''mediaChunks'',
              JArr [JObj [(''mimeType'', JStr ''audio/pcm''), (''data'', JStr ''AAAA'')]])])]),
         Console LDebug MAudioSent] \<and>
   \<not> isConnected (new_client ''c'' ''wss://x'' JNull) \<and>
   trace (sendAudio (JStr ''AAAA'') (new_client ''c'' ''wss://x'' JNull))
     = [Console LWarn MNotConnected] \<and>
   \<not> stringifiable (JBigInt 1) \<and>
   snd (safelySendJSON (JBigInt 1) (on_open 0 (fst (connect (new_client ''c'' ''wss://x'' JNull)))))
     = False"
proof -
  let ?c = "new_client ''c'' ''wss://x'' JNull"
  let ?s = "on_open 0 (fst (connect ?c))"
  have c: "isConnected ?s" "ws ?s = Some 0" using open_client by simp_all
  have n: "\<not> isConnected ?c" "trace ?c = []"
    by (simp_all add: isConnected_def new_client_def)
  show ?thesis
    using c n
      guarded_send [where b="''AAAA''" and s="?s" and d="JBigInt 1"]
      guarded_send [where b="''AAAA''" and s="?c"]
    by simp
qed

end
